theory Spec2Isabelle
  imports Main "HOL-Library.Sublist"
begin

section \<open>Go library functions used by the server\<close>

text \<open>
  Go strings are byte sequences, so a Go \<^verbatim>\<open>string\<close> is a \<^typ>\<open>string\<close> here
  (a list of 8-bit characters). The functions of this section are the ones
  \<^verbatim>\<open>main.go\<close> calls from the packages \<^verbatim>\<open>strings\<close>, \<^verbatim>\<open>path\<close>,
  \<^verbatim>\<open>path/filepath\<close> (Unix), \<^verbatim>\<open>unicode/utf8\<close> and \<^verbatim>\<open>text/template\<close>.
\<close>

subsection \<open>Package strings\<close>

definition HasSuffix :: "string \<Rightarrow> string \<Rightarrow> bool" where
  "HasSuffix s suf = suffix suf s"

fun strings_Join :: "string list \<Rightarrow> string \<Rightarrow> string" where
  "strings_Join [] sep = []"
| "strings_Join [x] sep = x"
| "strings_Join (x # y # ys) sep = x @ sep @ strings_Join (y # ys) sep"

text \<open>\<^verbatim>\<open>strings.Index\<close>: the position of the first instance of \<open>sep\<close>, or \<open>None\<close> for -1.\<close>

fun Index :: "string \<Rightarrow> string \<Rightarrow> nat option" where
  "Index [] sep = (if sep = [] then Some 0 else None)"
| "Index (c # cs) sep =
     (if prefix sep (c # cs) then Some 0 else map_option Suc (Index cs sep))"

definition Contains :: "string \<Rightarrow> string \<Rightarrow> bool" where
  "Contains s sub = (Index s sub \<noteq> None)"

text \<open>
  \<^verbatim>\<open>strings.SplitN(s, sep, 2)\<close> for a non-empty separator: the text before the first
  separator and the unsplit remainder, or the string alone when it holds no separator.
\<close>

definition SplitN2 :: "string \<Rightarrow> string \<Rightarrow> string list" where
  "SplitN2 s sep =
     (case Index s sep of
        None \<Rightarrow> [s]
      | Some m \<Rightarrow> [take m s, drop (m + length sep) s])"

text \<open>
  \<^verbatim>\<open>strings.ReplaceAll(s, old, new)\<close>: the non-overlapping instances of \<open>old\<close>, found
  from the left, are replaced; the scan resumes after each instance, so replaced text
  is not scanned again. Both calls of the server pass a non-empty constant \<open>old\<close>; Go's
  rune-wise insertion for an empty \<open>old\<close> is not part of the model, which leaves \<open>s\<close> as
  it is there.
\<close>

function ReplaceAll :: "string \<Rightarrow> string \<Rightarrow> string \<Rightarrow> string" where
  "ReplaceAll [] old new = []"
| "ReplaceAll (c # cs) old new =
     (if old = [] then c # cs
      else if prefix old (c # cs) then new @ ReplaceAll (drop (length old) (c # cs)) old new
      else c # ReplaceAll cs old new)"
  by pat_completeness auto
termination
proof (relation "measure (\<lambda>(s, old, new). length s)")
  fix c :: char and cs old new :: string
  assume "old \<noteq> []"
  then have "0 < length old" by simp
  then show "((drop (length old) (c # cs), old, new), (c # cs, old, new))
      \<in> measure (\<lambda>(s, old, new). length s)"
    by simp
qed simp_all

text \<open>
  \<^verbatim>\<open>strings.TrimSpace\<close> removes leading and trailing Unicode white space. The white
  space code points are U+0009..U+000D, U+0020, U+0085, U+00A0, U+1680, U+2000..U+200A,
  U+2028, U+2029, U+202F, U+205F and U+3000; \<open>spaceLen\<close> is the length of the UTF-8
  encoding of one of them at the head of the bytes, and 0 if there is none.
\<close>

definition spaceLen :: "string \<Rightarrow> nat" where
  "spaceLen s =
     (case map of_char s of
        [] \<Rightarrow> 0
      | b0 # bs \<Rightarrow>
          if (9 \<le> b0 \<and> b0 \<le> 13) \<or> b0 = (32 :: nat) then 1
          else if b0 = 0xC2 then
            (case bs of b1 # _ \<Rightarrow> if b1 = 0x85 \<or> b1 = 0xA0 then 2 else 0 | [] \<Rightarrow> 0)
          else if b0 = 0xE1 then
            (case bs of b1 # b2 # _ \<Rightarrow> if b1 = 0x9A \<and> b2 = 0x80 then 3 else 0 | _ \<Rightarrow> 0)
          else if b0 = 0xE2 then
            (case bs of
               b1 # b2 # _ \<Rightarrow>
                 if b1 = 0x80 \<and> ((0x80 \<le> b2 \<and> b2 \<le> 0x8A) \<or> b2 = 0xA8 \<or> b2 = 0xA9 \<or> b2 = 0xAF)
                 then 3
                 else if b1 = 0x81 \<and> b2 = 0x9F then 3 else 0
             | _ \<Rightarrow> 0)
          else if b0 = 0xE3 then
            (case bs of b1 # b2 # _ \<Rightarrow> if b1 = 0x80 \<and> b2 = 0x80 then 3 else 0 | _ \<Rightarrow> 0)
          else 0)"

function TrimLeft :: "string \<Rightarrow> string" where
  "TrimLeft s = (if spaceLen s = 0 then s else TrimLeft (drop (spaceLen s) s))"
  by pat_completeness auto
termination
proof (relation "measure length")
  show "wf (measure length)" by simp
next
  fix s :: string
  assume "spaceLen s \<noteq> 0"
  moreover from this have "s \<noteq> []" by (auto simp: spaceLen_def)
  ultimately show "(drop (spaceLen s) s, s) \<in> measure length" by simp
qed

declare TrimLeft.simps [simp del]

text \<open>
  The last code point of the bytes is white space exactly when one of the encodings
  above is a suffix of them: a continuation byte never starts an encoding, so the
  backwards scan of \<^verbatim>\<open>utf8.DecodeLastRune\<close> stops at the first byte of that suffix.
\<close>

definition spaceLenRight :: "string \<Rightarrow> nat" where
  "spaceLenRight s =
     (let n = length s in
      if 1 \<le> n \<and> spaceLen (drop (n - 1) s) = 1 then 1
      else if 2 \<le> n \<and> spaceLen (drop (n - 2) s) = 2 then 2
      else if 3 \<le> n \<and> spaceLen (drop (n - 3) s) = 3 then 3
      else 0)"

function TrimRight :: "string \<Rightarrow> string" where
  "TrimRight s =
     (if spaceLenRight s = 0 then s else TrimRight (take (length s - spaceLenRight s) s))"
  by pat_completeness auto
termination
proof (relation "measure length")
  show "wf (measure length)" by simp
next
  fix s :: string
  assume "spaceLenRight s \<noteq> 0"
  then have "0 < spaceLenRight s \<and> 0 < length s"
    by (auto simp: spaceLenRight_def Let_def split: if_splits)
  then show "(take (length s - spaceLenRight s) s, s) \<in> measure length" by simp
qed

declare TrimRight.simps [simp del]

definition TrimSpace :: "string \<Rightarrow> string" where
  "TrimSpace s = TrimRight (TrimLeft s)"

subsection \<open>Packages path and path/filepath (Unix)\<close>

text \<open>
  \<^verbatim>\<open>path.Base\<close>: the last element of the path, after the trailing slashes are
  removed; \<open>.\<close> for the empty path and \<open>/\<close> for a path of slashes only. On Unix
  \<^verbatim>\<open>filepath.Base\<close> is the same function.
\<close>

definition path_Base :: "string \<Rightarrow> string" where
  "path_Base p =
     (if p = [] then ''.''
      else let q = rev (dropWhile (\<lambda>c. c = CHR ''/'') (rev p));
               e = rev (takeWhile (\<lambda>c. c \<noteq> CHR ''/'') (rev q))
           in if e = [] then ''/'' else e)"

definition filepath_Base :: "string \<Rightarrow> string" where
  "filepath_Base p = path_Base p"

text \<open>The elements of a path between its slashes (empty ones included).\<close>

fun elements :: "string \<Rightarrow> string list" where
  "elements [] = [[]]"
| "elements (c # cs) =
     (if c = CHR ''/'' then [] # elements cs
      else (case elements cs of e # es \<Rightarrow> (c # e) # es | [] \<Rightarrow> [[c]]))"

text \<open>
  \<^verbatim>\<open>filepath.Clean\<close> keeps an output buffer \<open>out\<close> and the index \<open>dotdot\<close> below
  which a \<open>..\<close> element cannot remove anything. An empty element and \<open>.\<close> are
  dropped; \<open>..\<close> removes the last element of the buffer, or is kept when the path is
  not rooted and nothing is left to remove; any other element is appended.
\<close>

function backtrack :: "string \<Rightarrow> nat \<Rightarrow> nat \<Rightarrow> nat" where
  "backtrack out dotdot w =
     (if dotdot < w \<and> out ! w \<noteq> CHR ''/'' then backtrack out dotdot (w - 1) else w)"
  by pat_completeness auto
termination
  by (relation "measure (\<lambda>(out, dotdot, w). w)") auto

declare backtrack.simps [simp del]

fun cleanElements :: "bool \<Rightarrow> string list \<Rightarrow> string \<Rightarrow> nat \<Rightarrow> string" where
  "cleanElements rooted [] out dotdot = out"
| "cleanElements rooted (e # es) out dotdot =
     (if e = [] \<or> e = ''.'' then cleanElements rooted es out dotdot
      else if e = ''..'' then
        (if dotdot < length out then
           cleanElements rooted es (take (backtrack out dotdot (length out - 1)) out) dotdot
         else if \<not> rooted then
           (let out' = (if out \<noteq> [] then out @ ''/'' else out) @ ''..''
            in cleanElements rooted es out' (length out'))
         else cleanElements rooted es out dotdot)
      else
        cleanElements rooted es
          ((if (rooted \<and> length out \<noteq> 1) \<or> (\<not> rooted \<and> length out \<noteq> 0)
            then out @ ''/'' else out) @ e)
          dotdot)"

definition Clean :: "string \<Rightarrow> string" where
  "Clean p =
     (if p = [] then ''.''
      else let rooted = (hd p = CHR ''/'');
               out = cleanElements rooted (elements p) (if rooted then ''/'' else [])
                       (if rooted then 1 else 0)
           in if out = [] then ''.'' else out)"

text \<open>
  \<^verbatim>\<open>filepath.Join\<close>: the elements from the first non-empty one on, joined by slashes
  and cleaned; the empty string when every element is empty.
\<close>

definition filepath_Join :: "string list \<Rightarrow> string" where
  "filepath_Join elem =
     (case dropWhile (\<lambda>e. e = []) elem of
        [] \<Rightarrow> []
      | es \<Rightarrow> Clean (strings_Join es ''/''))"

subsection \<open>Package unicode/utf8\<close>

text \<open>
  The table of first bytes of \<^verbatim>\<open>utf8.DecodeRune\<close>: the size of the encoding and the
  range accepted for its second byte; \<open>None\<close> for a byte that starts no encoding.
\<close>

definition first :: "nat \<Rightarrow> (nat \<times> nat \<times> nat) option" where
  "first p0 =
     (if 0xC2 \<le> p0 \<and> p0 \<le> 0xDF then Some (2, 0x80, 0xBF)
      else if p0 = 0xE0 then Some (3, 0xA0, 0xBF)
      else if 0xE1 \<le> p0 \<and> p0 \<le> 0xEC then Some (3, 0x80, 0xBF)
      else if p0 = 0xED then Some (3, 0x80, 0x9F)
      else if 0xEE \<le> p0 \<and> p0 \<le> 0xEF then Some (3, 0x80, 0xBF)
      else if p0 = 0xF0 then Some (4, 0x90, 0xBF)
      else if 0xF1 \<le> p0 \<and> p0 \<le> 0xF3 then Some (4, 0x80, 0xBF)
      else if p0 = 0xF4 then Some (4, 0x80, 0x8F)
      else None)"

definition RuneError :: nat where
  "RuneError = 0xFFFD"

text \<open>\<^verbatim>\<open>utf8.DecodeRune\<close>: the first code point of the bytes and the number of bytes read.\<close>

definition DecodeRune :: "string \<Rightarrow> nat \<times> nat" where
  "DecodeRune p =
     (case map of_char p of
        [] \<Rightarrow> (RuneError, 0)
      | p0 # bs \<Rightarrow>
          if p0 < 0x80 then (p0, 1)
          else
            (case first p0 of
               None \<Rightarrow> (RuneError, 1)
             | Some (sz, lo, hi) \<Rightarrow>
                 if Suc (length bs) < sz then (RuneError, 1)
                 else let b1 = bs ! 0 in
                 if b1 < lo \<or> hi < b1 then (RuneError, 1)
                 else if sz \<le> 2 then (p0 mod 32 * 64 + b1 mod 64, 2)
                 else let b2 = bs ! 1 in
                 if b2 < 0x80 \<or> 0xBF < b2 then (RuneError, 1)
                 else if sz \<le> 3 then (p0 mod 16 * 4096 + b1 mod 64 * 64 + b2 mod 64, 3)
                 else let b3 = bs ! 2 in
                 if b3 < 0x80 \<or> 0xBF < b3 then (RuneError, 1)
                 else (p0 mod 8 * 262144 + b1 mod 64 * 4096 + b2 mod 64 * 64 + b3 mod 64, 4)))"

subsection \<open>Package text/template: JSEscapeString\<close>

definition jsIsSpecial :: "nat \<Rightarrow> bool" where
  "jsIsSpecial r =
     (r = 0x5C \<or> r = 0x27 \<or> r = 0x22 \<or> r = 0x3C \<or> r = 0x3E \<or> r = 0x26 \<or> r = 0x3D
      \<or> r < 0x20 \<or> 0x80 \<le> r)"

definition hexDigit :: "nat \<Rightarrow> char" where
  "hexDigit n = ''0123456789ABCDEF'' ! n"

function hexUpper :: "nat \<Rightarrow> string" where
  "hexUpper n = (if n < 16 then [hexDigit n] else hexUpper (n div 16) @ [hexDigit (n mod 16)])"
  by pat_completeness auto
termination
  by (relation "measure id") auto

declare hexUpper.simps [simp del]

text \<open>The format \<^verbatim>\<open>\u%04X\<close>: upper-case hexadecimal, zero-padded to four digits.\<close>

definition jsUnicode :: "nat \<Rightarrow> string" where
  "jsUnicode r = [CHR 0x5C, CHR ''u''] @ replicate (4 - length (hexUpper r)) CHR ''0'' @ hexUpper r"

text \<open>The escape written for a special byte below \<^verbatim>\<open>utf8.RuneSelf\<close>.\<close>

definition jsAscii :: "char \<Rightarrow> string" where
  "jsAscii c =
     (if c = CHR 0x5C then [CHR 0x5C, CHR 0x5C]
      else if c = CHR 0x27 then [CHR 0x5C, CHR 0x27]
      else if c = CHR 0x22 then [CHR 0x5C, CHR 0x22]
      else if c = CHR ''<'' then [CHR 0x5C] @ ''u003C''
      else if c = CHR ''>'' then [CHR 0x5C] @ ''u003E''
      else if c = CHR ''&'' then [CHR 0x5C] @ ''u0026''
      else if c = CHR ''='' then [CHR 0x5C] @ ''u003D''
      else [CHR 0x5C] @ ''u00'' @ [hexDigit (of_char c div 16), hexDigit (of_char c mod 16)])"

text \<open>
  \<^verbatim>\<open>template.JSEscapeString\<close>. The bytes are read one at a time; a byte that is not
  special is copied, a special ASCII byte is written as its escape, and at any other
  byte a code point is decoded and written as it is when \<^verbatim>\<open>unicode.IsPrint\<close> holds
  of it, as \<^verbatim>\<open>\uXXXX\<close> otherwise. The Unicode table behind \<^verbatim>\<open>unicode.IsPrint\<close> is
  the parameter \<open>IsPrint\<close>.
\<close>

function JSEscapeString :: "(nat \<Rightarrow> bool) \<Rightarrow> string \<Rightarrow> string" where
  "JSEscapeString IsPrint [] = []"
| "JSEscapeString IsPrint (c # cs) =
     (if \<not> jsIsSpecial (of_char c) then c # JSEscapeString IsPrint cs
      else if of_char c < (0x80 :: nat) then jsAscii c @ JSEscapeString IsPrint cs
      else
        (case DecodeRune (c # cs) of
           (r, width) \<Rightarrow>
             (if IsPrint r then take width (c # cs) else jsUnicode r)
             @ JSEscapeString IsPrint (drop (width - 1) cs)))"
  by pat_completeness auto
termination
  by (relation "measure (\<lambda>(IsPrint, s). length s)") auto

section \<open>The server's view of its environment\<close>

text \<open>
  A Go \<^verbatim>\<open>error\<close> as the server reads it: its text (\<^verbatim>\<open>err.Error()\<close>) and whether
  it is \<^verbatim>\<open>fs.ErrNotExist\<close> (\<^verbatim>\<open>os.IsNotExist\<close> and \<^verbatim>\<open>errors.Is\<close> agree on the
  errors of \<^verbatim>\<open>os.Stat\<close>).
\<close>

datatype go_error = ErrNotExist string | OtherError string

fun Error_text :: "go_error \<Rightarrow> string" where
  "Error_text (ErrNotExist t) = t"
| "Error_text (OtherError t) = t"

fun IsNotExist :: "go_error \<Rightarrow> bool" where
  "IsNotExist (ErrNotExist t) = True"
| "IsNotExist (OtherError t) = False"

datatype FileInfo = FileInfo (IsDir: bool)

text \<open>
  What the operating system, the command line and the clock give the process while it
  handles one request: the flags, and the result of each call the handler makes. A
  call that can fail returns \<open>Inl\<close> of its error.
\<close>

record world =
  flagHTTP :: string
  flagTags :: string
  flagAllowOrigin :: string
  flagOverlay :: string
  flag_Args :: "string list"
  ioutil_TempDir :: "go_error + string"
  os_Stat :: "string \<Rightarrow> go_error + FileInfo"
  os_Environ :: "string list"
  os_Executable :: "go_error + string"
  os_Open :: "string \<Rightarrow> go_error + nat"
  os_Create :: "string \<Rightarrow> go_error + nat"
  files :: "nat \<Rightarrow> string"
  io_Copy :: "go_error option"
  http_ListenAndServe :: "go_error option"
  exec_Output :: "string list \<Rightarrow> go_error + string"
  exec_CombinedOutput :: "string list \<Rightarrow> string list \<Rightarrow> string \<Rightarrow> string \<times> go_error option"
  time_Now :: nat
  unicode_IsPrint :: "nat \<Rightarrow> bool"

text \<open>
  \<open>os_Open w p\<close> and \<open>os_Create w p\<close> are the file that the path \<open>p\<close> leads to (two
  paths can lead to one file), and \<open>files w f\<close> is the content of the file \<open>f\<close>;
  \<open>io_Copy w\<close> is the error of \<^verbatim>\<open>io.Copy\<close>, if it fails, and \<open>http_ListenAndServe w\<close>
  the error of \<^verbatim>\<open>http.ListenAndServe\<close>, if it returns;
  \<open>exec_Output w argv\<close> is the standard output of the command \<open>argv\<close>;
  \<open>exec_CombinedOutput w argv env dir\<close> is the combined standard output and standard
  error of the command run with environment \<open>env\<close> in directory \<open>dir\<close>, and its error.
\<close>

subsection \<open>Requests, responses and effects\<close>

text \<open>
  The handler reads only the path of the request's URL. \<open>rid\<close> names the request (and
  the goroutine serving it).
\<close>

record request =
  rid :: nat
  URL_Path :: string

text \<open>
  The call of package \<^verbatim>\<open>net/http\<close> that ends a handler: \<^verbatim>\<open>http.Error(w, text, code)\<close>,
  \<^verbatim>\<open>http.Redirect(w, r, url, code)\<close>, \<^verbatim>\<open>http.ServeContent(w, r, name, modtime, content)\<close>,
  which answers a plain GET with status 200 and the content as the body, and
  \<^verbatim>\<open>http.ServeFile(w, r, name)\<close>, the static file server. \<open>Panic\<close> is a run-time panic
  of the handler: no response is written.
\<close>

datatype reply =
    Error string nat
  | Redirect string nat
  | ServeContent string nat string
  | ServeFile string
  | Panic string

type_synonym header = "(string \<times> string) list"

type_synonym response = "nat \<times> header \<times> reply"

text \<open>
  What a handler does to the world besides answering: the temporary directory it
  creates, the commands it runs (arguments, environment, directory), the lines it logs
  and the files it opens. Queries that change nothing (\<^verbatim>\<open>os.Stat\<close>, \<^verbatim>\<open>os.Environ\<close>,
  \<^verbatim>\<open>os.Executable\<close>) are not recorded.
\<close>

datatype effect =
    MkTempDir string
  | Exec "string list" "string list" string
  | Log string
  | Open string
  | Create string
  | Listen string

text \<open>A build attempt is a run of \<^verbatim>\<open>go run ...\<close>.\<close>

fun isBuild :: "effect \<Rightarrow> bool" where
  "isBuild (Exec (a # b # args) env dir) = (a = ''go'' \<and> b = ''run'')"
| "isBuild e = False"

definition builds :: "effect list \<Rightarrow> effect list" where
  "builds es = filter isBuild es"

subsection \<open>The global variables\<close>

text \<open>
  \<open>tmpOutputDir\<close> is the package variable of that name. \<open>waitChannel\<close> is an unbuffered
  channel: its state is the queue of goroutines blocked in a send on it, each with the
  request it serves and the header it has set so far. No goroutine ever blocks in a
  receive, since the only receive is a \<^verbatim>\<open>select\<close> with a \<^verbatim>\<open>default\<close> case.
\<close>

record state =
  tmpOutputDir :: string
  waitChannel :: "(nat \<times> header) list"

definition initial :: state where
  "initial = \<lparr>tmpOutputDir = [], waitChannel = []\<rparr>"

text \<open>The outcome of running a handler: the responses written, the effects, the state.\<close>

record result =
  responses :: "response list"
  effects :: "effect list"
  after :: state

definition respond :: "state \<Rightarrow> effect list \<Rightarrow> nat \<Rightarrow> header \<Rightarrow> reply \<Rightarrow> result" where
  "respond s es i h rep = \<lparr>responses = [(i, h, rep)], effects = es, after = s\<rparr>"

section \<open>The server\<close>

subsection \<open>ensureTmpOutputDir\<close>

definition ensureTmpOutputDir :: "world \<Rightarrow> state \<Rightarrow> (go_error + string) \<times> effect list \<times> state" where
  "ensureTmpOutputDir w s =
     (if tmpOutputDir s \<noteq> [] then (Inr (tmpOutputDir s), [], s)
      else
        (case ioutil_TempDir w of
           Inl err \<Rightarrow> (Inl err, [], s)
         | Inr tmp \<Rightarrow> (Inr tmp, [MkTempDir tmp], s\<lparr>tmpOutputDir := tmp\<rparr>)))"

subsection \<open>The bootstrap page\<close>

definition indexHTML :: string where
  "indexHTML = concat (map (\<lambda>l. l @ [CHR 0x0A])
     [''<!DOCTYPE html>'',
      ''<script src='' @ [CHR 0x22] @ ''wasm_exec.js'' @ [CHR 0x22] @ ''></script>'',
      ''<script>'',
      ''(async () => {'',
      ''  const resp = await fetch('main.wasm');'',
      ''  if (!resp.ok) {'',
      ''    const pre = document.createElement('pre');'',
      ''    pre.innerText = await resp.text();'',
      ''    document.body.appendChild(pre);'',
      ''  } else {'',
      ''    const src = await resp.arrayBuffer();'',
      ''    const go = new Go();'',
      ''    const result = await WebAssembly.instantiate(src, go.importObject);'',
      ''    go.argv = {{.Argv}};'',
      ''    go.env = {{.Env}};'',
      ''    go.run(result.instance);'',
      ''  }'',
      ''  const reload = await fetch('_wait');'',
      ''  // The server sends a response for '_wait' when a request is sent to '_notify'.'',
      ''  if (reload.ok) {'',
      ''    location.reload();'',
      ''  }'',
      ''})();'',
      ''</script>''])"

text \<open>Lines 125 to 128: every argument, escaped, between double quotes.\<close>

definition argvItems :: "(nat \<Rightarrow> bool) \<Rightarrow> string list \<Rightarrow> string list" where
  "argvItems IsPrint fargs = map (\<lambda>a. [CHR 0x22] @ JSEscapeString IsPrint a @ [CHR 0x22]) fargs"

text \<open>
  Lines 134 and 135: the name of a variable, then its value, escaped, between double
  quotes. \<open>None\<close> is the panic of \<^verbatim>\<open>split[1]\<close> on an entry without \<^verbatim>\<open>=\<close>.
\<close>

definition envItem :: "(nat \<Rightarrow> bool) \<Rightarrow> string \<Rightarrow> string option" where
  "envItem IsPrint e =
     (case SplitN2 e ''='' of
        k # v # rest \<Rightarrow> Some (k @ '': '' @ [CHR 0x22] @ JSEscapeString IsPrint v @ [CHR 0x22])
      | _ \<Rightarrow> None)"

text \<open>Lines 121 to 124: the arguments given to the program in the page.\<close>

definition renderedArgs :: "world \<Rightarrow> string \<Rightarrow> string list" where
  "renderedArgs w output =
     (if length (flag_Args w) = 0 then [filepath_Join [output, ''main.wasm'']]
      else flag_Args w)"

definition argvLiteral :: "world \<Rightarrow> string \<Rightarrow> string" where
  "argvLiteral w output =
     ''['' @ strings_Join (argvItems (unicode_IsPrint w) (renderedArgs w output)) '', '' @ '']''"

definition envLiteral :: "string list \<Rightarrow> string" where
  "envLiteral env = ''{'' @ strings_Join env '', '' @ ''}''"

definition indexPage :: "world \<Rightarrow> string \<Rightarrow> string option" where
  "indexPage w output =
     (let h = ReplaceAll indexHTML ''{{.Argv}}'' (argvLiteral w output)
      in case those (map (envItem (unicode_IsPrint w)) (os_Environ w)) of
           None \<Rightarrow> None
         | Some env \<Rightarrow> Some (ReplaceAll h ''{{.Env}}'' (envLiteral env)))"

subsection \<open>waitForUpdate and notifyWaiters\<close>

text \<open>
  \<^verbatim>\<open>waitForUpdate\<close> sends on the channel. No receiver is waiting, so the goroutine
  blocks: it joins the queue of the channel and writes nothing yet.
\<close>

definition waitForUpdate :: "nat \<Rightarrow> header \<Rightarrow> state \<Rightarrow> result" where
  "waitForUpdate i h s =
     \<lparr>responses = [], effects = [], after = s\<lparr>waitChannel := waitChannel s @ [(i, h)]\<rparr>\<rparr>"

text \<open>
  A goroutine whose send is received goes on to the last line of \<^verbatim>\<open>waitForUpdate\<close>:
  it serves the empty content.
\<close>

definition released :: "world \<Rightarrow> nat \<times> header \<Rightarrow> response" where
  "released w g = (fst g, snd g, ServeContent [] (time_Now w) [])"

text \<open>
  The loop of \<^verbatim>\<open>notifyWaiters\<close>: while a sender is blocked on the channel the
  \<^verbatim>\<open>select\<close> receives from it, which releases it; when none is left the \<^verbatim>\<open>default\<close>
  case serves the empty content and returns. The result is the responses written and
  the queue left. The loop is taken as one step: the senders it sees are those blocked
  when it starts, and no request arrives while it runs.
\<close>

fun notifyLoop :: "world \<Rightarrow> nat \<Rightarrow> header \<Rightarrow> (nat \<times> header) list \<Rightarrow> response list \<times> (nat \<times> header) list" where
  "notifyLoop w i h [] = ([(i, h, ServeContent [] (time_Now w) [])], [])"
| "notifyLoop w i h (g # gs) =
     (case notifyLoop w i h gs of (rs, q) \<Rightarrow> (released w g # rs, q))"

definition notifyWaiters :: "world \<Rightarrow> nat \<Rightarrow> header \<Rightarrow> state \<Rightarrow> result" where
  "notifyWaiters w i h s =
     (case notifyLoop w i h (waitChannel s) of
        (rs, q) \<Rightarrow> \<lparr>responses = rs, effects = [], after = s\<lparr>waitChannel := q\<rparr>\<rparr>)"

subsection \<open>handle\<close>

text \<open>
  The parts of \<^verbatim>\<open>handle\<close>, in the order of the source. A part returns the reply it
  ends the handler with, or \<open>None\<close> when control goes on, and the effects it had.
\<close>

text \<open>Lines 100 to 110: the redirection of a directory requested without its slash.\<close>

definition redirectCheck :: "world \<Rightarrow> request \<Rightarrow> string \<Rightarrow> reply option" where
  "redirectCheck w r fpath =
     (if \<not> HasSuffix (URL_Path r) ''/'' then
        (case os_Stat w fpath of
           Inl err \<Rightarrow>
             if \<not> IsNotExist err then Some (Error (Error_text err) 500) else None
         | Inr fi \<Rightarrow>
             if IsDir fi then Some (Redirect (URL_Path r @ ''/'') 303) else None)
      else None)"

text \<open>Lines 117 to 141: the cases \<^verbatim>\<open>"."\<close> and \<^verbatim>\<open>"index.html"\<close>.\<close>

definition serveIndex :: "world \<Rightarrow> string \<Rightarrow> string \<Rightarrow> reply option \<times> effect list" where
  "serveIndex w output fpath =
     (case os_Stat w fpath of
        Inl err \<Rightarrow>
          if \<not> IsNotExist err then (Some (Error (Error_text err) 500), [])
          else
            (case indexPage w output of
               None \<Rightarrow> (Some (Panic ''index out of range [1] with length 1''), [])
             | Some h \<Rightarrow> (Some (ServeContent ''index.html'' (time_Now w) h), []))
      | Inr fi \<Rightarrow> (None, []))"

text \<open>Lines 143 to 156: the case \<^verbatim>\<open>"wasm_exec.js"\<close>.\<close>

definition serveWasmExec :: "world \<Rightarrow> string \<Rightarrow> reply option \<times> effect list" where
  "serveWasmExec w fpath =
     (case os_Stat w fpath of
        Inl err \<Rightarrow>
          if \<not> IsNotExist err then (Some (Error (Error_text err) 500), [])
          else
            (let cmd = Exec [''go'', ''env'', ''GOROOT''] (os_Environ w) [] in
             case exec_Output w [''go'', ''env'', ''GOROOT''] of
               Inl err \<Rightarrow>
                 (Some (Error (Error_text err) 500), [cmd, Log (Error_text err)])
             | Inr out \<Rightarrow>
                 (Some (ServeFile
                    (filepath_Join [TrimSpace out, ''misc'', ''wasm'', ''wasm_exec.js''])),
                  [cmd]))
      | Inr fi \<Rightarrow> (None, []))"

text \<open>Lines 172 to 184: the arguments of the build command.\<close>

definition buildArgs :: "world \<Rightarrow> string \<Rightarrow> string \<Rightarrow> string list" where
  "buildArgs w exc output =
     [''run'', ''-exec'', exc]
     @ (if flagTags w \<noteq> [] then [''-tags'', flagTags w] else [])
     @ (if flagOverlay w \<noteq> [] then [''-overlay'', flagOverlay w] else [])
     @ (if 0 < length (flag_Args w) then [hd (flag_Args w)] else [''.''])
     @ [filepath_Join [output, ''main.wasm'']]"

definition buildEnv :: "world \<Rightarrow> string list" where
  "buildEnv w = os_Environ w @ [''GOOS=js'', ''GOARCH=wasm'', ''WASMSERVE=cp'']"

text \<open>Lines 158 to 209: the case \<^verbatim>\<open>"main.wasm"\<close>.\<close>

definition serveMainWasm :: "world \<Rightarrow> string \<Rightarrow> string \<Rightarrow> reply option \<times> effect list" where
  "serveMainWasm w output fpath =
     (case os_Stat w fpath of
        Inl err \<Rightarrow>
          if \<not> IsNotExist err then (Some (Error (Error_text err) 500), [])
          else
            (case os_Executable w of
               Inl err \<Rightarrow> (Some (Error (Error_text err) 500), [Log (Error_text err)])
             | Inr exc \<Rightarrow>
                 (let args = buildArgs w exc output;
                      started = [Log (''go '' @ strings_Join args '' ''),
                                 Exec (''go'' # args) (buildEnv w) ''.'']
                  in case exec_CombinedOutput w (''go'' # args) (buildEnv w) ''.'' of
                       (out, Some err) \<Rightarrow>
                         (Some (Error out 500), started @ [Log (Error_text err), Log out])
                     | (out, None) \<Rightarrow>
                         (let logged = started @ (if 0 < length out then [Log out] else []);
                              name = filepath_Join [output, ''main.wasm'']
                          in case os_Open w name of
                               Inl err \<Rightarrow>
                                 (Some (Error (Error_text err) 500), logged @ [Open name])
                             | Inr f \<Rightarrow>
                                 (Some (ServeContent ''main.wasm'' (time_Now w) (files w f)),
                                  logged @ [Open name]))))
      | Inr fi \<Rightarrow> (None, []))"

text \<open>Lines 87 to 89: the header set when the flag \<^verbatim>\<open>-allow-origin\<close> is given.\<close>

definition allowOrigin :: "world \<Rightarrow> header" where
  "allowOrigin w =
     (if flagAllowOrigin w \<noteq> []
      then [(''Access-Control-Allow-Origin'', flagAllowOrigin w)] else [])"

text \<open>
  \<^verbatim>\<open>handle\<close>. \<^verbatim>\<open>r.URL.Path[1:]\<close> panics on an empty path. A case of the
  \<^verbatim>\<open>switch\<close> that does not return leaves the \<^verbatim>\<open>switch\<close>, and the file of the
  request's path is served (line 218).
\<close>

definition handle :: "world \<Rightarrow> request \<Rightarrow> state \<Rightarrow> result" where
  "handle w r s =
     (let h = allowOrigin w
      in case ensureTmpOutputDir w s of
           (Inl err, es, s1) \<Rightarrow> respond s1 es (rid r) h (Error (Error_text err) 500)
         | (Inr output, es, s1) \<Rightarrow>
             if URL_Path r = [] then
               respond s1 es (rid r) h (Panic ''slice bounds out of range [1:0]'')
             else
               (let upath = tl (URL_Path r);
                    fpath = path_Base upath;
                    static = ServeFile (filepath_Join [''.'', URL_Path r]);
                    leave = (\<lambda>(rep, es'). respond s1 (es @ es') (rid r) h
                               (case rep of Some x \<Rightarrow> x | None \<Rightarrow> static));
                    blocking = (\<lambda>res. res\<lparr>effects := es @ effects res\<rparr>)
                in case redirectCheck w r fpath of
                     Some rep \<Rightarrow> respond s1 es (rid r) h rep
                   | None \<Rightarrow>
                       (let name = filepath_Base fpath in
                        if name = ''.'' then
                          leave (serveIndex w output (filepath_Join [fpath, ''index.html'']))
                        else if name = ''index.html'' then leave (serveIndex w output fpath)
                        else if name = ''wasm_exec.js'' then leave (serveWasmExec w fpath)
                        else if name = ''main.wasm'' then leave (serveMainWasm w output fpath)
                        else if name = ''_wait'' then blocking (waitForUpdate (rid r) h s1)
                        else if name = ''_notify'' then blocking (notifyWaiters w (rid r) h s1)
                        else leave (None, []))))"

subsection \<open>main\<close>

text \<open>
  \<^verbatim>\<open>os.Getenv\<close>: the value of the first entry of the environment for the key, and
  the empty string when there is none.
\<close>

definition Getenv :: "string list \<Rightarrow> string \<Rightarrow> string" where
  "Getenv env key =
     (case find (\<lambda>e. prefix (key @ ''='') e) env of
        None \<Rightarrow> []
      | Some e \<Rightarrow> drop (Suc (length key)) e)"

text \<open>
  How the process ends: a run-time panic, \<^verbatim>\<open>log.Fatal\<close> with its message, the return
  of \<^verbatim>\<open>main\<close> (with the content of every file then), or the HTTP server listening
  on an address and serving \<^verbatim>\<open>handle\<close>.
\<close>

datatype exit =
    Panicked string
  | Fatal string
  | Returned "nat \<Rightarrow> string"
  | Serving string

text \<open>
  \<^verbatim>\<open>main\<close>, after \<^verbatim>\<open>flag.Parse()\<close>. \<^verbatim>\<open>os.Create\<close> truncates the file it opens;
  \<^verbatim>\<open>io.Copy\<close> then reads the source to its end and writes what it reads to the
  destination.
\<close>

definition main :: "world \<Rightarrow> exit \<times> effect list" where
  "main w =
     (if Getenv (os_Environ w) ''WASMSERVE'' = ''cp'' then
        (case flag_Args w of
           [] \<Rightarrow> (Panicked ''index out of range [0] with length 0'', [])
         | [src] \<Rightarrow> (Panicked ''index out of range [1] with length 1'', [])
         | src # dst # rest \<Rightarrow>
             (case os_Open w src of
                Inl err \<Rightarrow> (Fatal (''open input '' @ Error_text err), [Open src])
              | Inr infile \<Rightarrow>
                  (case os_Create w dst of
                     Inl err \<Rightarrow>
                       (Fatal (''create output '' @ Error_text err), [Open src, Create dst])
                   | Inr outfile \<Rightarrow>
                       (let truncated = (files w)(outfile := []) in
                        case io_Copy w of
                          Some err \<Rightarrow>
                            (Fatal (''copy input to output '' @ Error_text err),
                             [Open src, Create dst])
                        | None \<Rightarrow>
                            (Returned (truncated(outfile := truncated infile)),
                             [Open src, Create dst])))))
      else
        (case http_ListenAndServe w of
           Some err \<Rightarrow> (Fatal (Error_text err), [Listen (flagHTTP w)])
         | None \<Rightarrow> (Serving (flagHTTP w), [Listen (flagHTTP w)])))"

subsection \<open>Runs of the server\<close>

text \<open>
  Requests handled one after the other, each in the world it meets: the responses and
  the effects in order, and the state left.
\<close>

fun serve :: "(world \<times> request) list \<Rightarrow> state \<Rightarrow> result" where
  "serve [] s = \<lparr>responses = [], effects = [], after = s\<rparr>"
| "serve ((w, r) # rest) s =
     (let a = handle w r s; b = serve rest (after a)
      in \<lparr>responses = responses a @ responses b,
          effects = effects a @ effects b,
          after = after b\<rparr>)"

subsection \<open>Calls of ensureTmpOutputDir that overlap\<close>

text \<open>
  Package \<^verbatim>\<open>net/http\<close> runs \<^verbatim>\<open>handle\<close> in a goroutine of its own for every request, and
  \<^verbatim>\<open>ensureTmpOutputDir\<close> takes no lock, so the lines of two calls can alternate. A call
  is at one of its lines: the test of line 74, the return of line 75, the call of
  \<^verbatim>\<open>ioutil.TempDir\<close> of line 78, the assignment of line 82 (with the value of \<^verbatim>\<open>tmp\<close>),
  the return of line 83; or it has returned.
\<close>

datatype line = Line74 | Line75 | Line78 | Line82 string | Line83 | Return "go_error + string"

text \<open>
  The process while such calls run: the global variables, the line each call is at (call
  \<open>i\<close> at position \<open>i\<close>), and the directories created so far.
\<close>

record process = state +
  calls :: "line list"
  created :: "effect list"

text \<open>
  One line of call \<open>i\<close>, in the world \<open>W i\<close> that the call meets. Both \<^verbatim>\<open>return\<close>
  statements read the variable again.
\<close>

definition step :: "(nat \<Rightarrow> world) \<Rightarrow> nat \<Rightarrow> process \<Rightarrow> process" where
  "step W i p =
     (if length (calls p) \<le> i then p
      else
        (case calls p ! i of
           Line74 \<Rightarrow> p\<lparr>calls := (calls p)[i := (if tmpOutputDir p \<noteq> [] then Line75 else Line78)]\<rparr>
         | Line75 \<Rightarrow> p\<lparr>calls := (calls p)[i := Return (Inr (tmpOutputDir p))]\<rparr>
         | Line78 \<Rightarrow>
             (case ioutil_TempDir (W i) of
                Inl err \<Rightarrow> p\<lparr>calls := (calls p)[i := Return (Inl err)]\<rparr>
              | Inr tmp \<Rightarrow> p\<lparr>calls := (calls p)[i := Line82 tmp],
                              created := created p @ [MkTempDir tmp]\<rparr>)
         | Line82 tmp \<Rightarrow> p\<lparr>tmpOutputDir := tmp, calls := (calls p)[i := Line83]\<rparr>
         | Line83 \<Rightarrow> p\<lparr>calls := (calls p)[i := Return (Inr (tmpOutputDir p))]\<rparr>
         | Return x \<Rightarrow> p))"

text \<open>A schedule names the call that runs its next line, time after time.\<close>

fun run :: "(nat \<Rightarrow> world) \<Rightarrow> nat list \<Rightarrow> process \<Rightarrow> process" where
  "run W [] p = p"
| "run W (i # rest) p = run W rest (step W i p)"

section \<open>Notions used in the statements\<close>



text \<open>The number of responses written to a request.\<close>

definition answers :: "response list \<Rightarrow> nat \<Rightarrow> nat" where
  "answers rs i = length (filter (\<lambda>r. fst r = i) rs)"

text \<open>A character that neither escapes nor ends a JavaScript string.\<close>

definition plain :: "char \<Rightarrow> bool" where
  "plain c = (c \<noteq> CHR 0x5C \<and> c \<noteq> CHR 0x22)"

text \<open>No temporary directory is created among the effects.\<close>

definition noTempDir :: "effect list \<Rightarrow> bool" where
  "noTempDir es = (\<forall>d. MkTempDir d \<notin> set es)"

text \<open>The constant parts of the bootstrap page around its two placeholders.\<close>

definition pageHead :: string where
  "pageHead = concat (map (\<lambda>l. l @ [CHR 0x0A])
     [''<!DOCTYPE html>'',
      ''<script src='' @ [CHR 0x22] @ ''wasm_exec.js'' @ [CHR 0x22] @ ''></script>'',
      ''<script>'',
      ''(async () => {'',
      ''  const resp = await fetch('main.wasm');'',
      ''  if (!resp.ok) {'',
      ''    const pre = document.createElement('pre');'',
      ''    pre.innerText = await resp.text();'',
      ''    document.body.appendChild(pre);'',
      ''  } else {'',
      ''    const src = await resp.arrayBuffer();'',
      ''    const go = new Go();'',
      ''    const result = await WebAssembly.instantiate(src, go.importObject);''])
     @ ''    go.argv = ''"

definition pageMid :: string where
  "pageMid = '';'' @ [CHR 0x0A] @ ''    go.env = ''"

definition pageTail :: string where
  "pageTail = '';'' @ [CHR 0x0A] @ concat (map (\<lambda>l. l @ [CHR 0x0A])
     [''    go.run(result.instance);'',
      ''  }'',
      ''  const reload = await fetch('_wait');'',
      ''  // The server sends a response for '_wait' when a request is sent to '_notify'.'',
      ''  if (reload.ok) {'',
      ''    location.reload();'',
      ''  }'',
      ''})();'',
      ''</script>''])"

section \<open>Example worlds\<close>

text \<open>
  A world in which no file exists but the built artifact, every call succeeds, and
  the environment has two variables.
\<close>

definition exampleWorld :: world where
  "exampleWorld =
     \<lparr>flagHTTP = '':8080'', flagTags = [], flagAllowOrigin = [], flagOverlay = [],
      flag_Args = [],
      ioutil_TempDir = Inr ''/tmp/1'',
      os_Stat = (\<lambda>p. Inl (ErrNotExist (''stat '' @ p @ '': no such file or directory''))),
      os_Environ = [''HOME=/root'', ''LANG=C''],
      os_Executable = Inr ''/bin/wasmserve'',
      os_Open = (\<lambda>p. if p = ''/tmp/1/main.wasm'' then Inr 1
                      else Inl (ErrNotExist (''open '' @ p @ '': no such file or directory''))),
      os_Create = (\<lambda>p. Inr 2),
      files = (\<lambda>f. if f = 1 then ''wasm'' else []),
      io_Copy = None,
      http_ListenAndServe = None,
      exec_Output = (\<lambda>argv. Inr (''/usr/local/go'' @ [CHR 0x0A])),
      exec_CombinedOutput = (\<lambda>argv env dir. ([], None)),
      time_Now = 0,
      unicode_IsPrint = (\<lambda>r. True)\<rparr>"

text \<open>The process started in copy mode, to copy the file \<open>a\<close> (file 1) to \<open>b\<close> (file 2).\<close>

definition copyWorld :: world where
  "copyWorld =
     exampleWorld\<lparr>os_Environ := [''HOME=/root'', ''WASMSERVE=cp''],
                   flag_Args := [''a'', ''b''],
                   os_Open := (\<lambda>p. Inr 1),
                   files := (\<lambda>f. if f = 1 then ''hello'' else [])\<rparr>"

text \<open>Copy mode with the same file as source and destination.\<close>

definition sameFileWorld :: world where
  "sameFileWorld = copyWorld\<lparr>flag_Args := [''a'', ''a''], os_Create := (\<lambda>p. Inr 1)\<rparr>"

text \<open>
  A world with three names on the disk: the directory \<open>sub\<close> and the regular files
  \<open>main.wasm\<close> and \<open>_notify\<close>; then worlds in which the path of the executable, or the
  temporary directory, cannot be had.
\<close>

definition diskWorld :: world where
  "diskWorld =
     exampleWorld\<lparr>os_Stat := (\<lambda>p.
        if p = ''sub'' then Inr (FileInfo True)
        else if p = ''main.wasm'' \<or> p = ''_notify'' then Inr (FileInfo False)
        else Inl (ErrNotExist (''stat '' @ p @ '': no such file or directory'')))\<rparr>"

definition noExecutableWorld :: world where
  "noExecutableWorld =
     exampleWorld\<lparr>os_Executable := Inl (OtherError ''readlink /proc/self/exe: permission denied'')\<rparr>"

definition noTempDirWorld :: world where
  "noTempDirWorld =
     diskWorld\<lparr>ioutil_TempDir := Inl (OtherError ''mkdir /tmp/123: read-only file system'')\<rparr>"


definition placeholderWorld :: world where
  "placeholderWorld = exampleWorld\<lparr>flag_Args := [''{{.Env}}'']\<rparr>"

definition exampleEnvLiteral :: string where
  "exampleEnvLiteral =
     ''{HOME: '' @ [CHR 0x22] @ ''/root'' @ [CHR 0x22] @ '', LANG: '' @ [CHR 0x22] @ ''C''
     @ [CHR 0x22] @ ''}''"




text \<open>
  A fresh process in which three requests are about to call \<^verbatim>\<open>ensureTmpOutputDir\<close>, and
  the worlds they meet: \<^verbatim>\<open>ioutil.TempDir\<close> gives call 0 the name \<open>/tmp/1\<close> and any other
  call the name \<open>/tmp/2\<close>.
\<close>

definition threeCalls :: process where
  "threeCalls =
     \<lparr>tmpOutputDir = [], waitChannel = [], calls = [Line74, Line74, Line74], created = []\<rparr>"

definition tempDirs :: "nat \<Rightarrow> world" where
  "tempDirs i = exampleWorld\<lparr>ioutil_TempDir := Inr (if i = 0 then ''/tmp/1'' else ''/tmp/2'')\<rparr>"

section \<open>Basic facts\<close>

lemma exampleWorld_sel [simp]:
  "ioutil_TempDir exampleWorld = Inr ''/tmp/1''"
  "flag_Args exampleWorld = []"
  "flagAllowOrigin exampleWorld = []"
  "flagTags exampleWorld = []"
  "flagOverlay exampleWorld = []"
  "os_Executable exampleWorld = Inr ''/bin/wasmserve''"
  "os_Environ exampleWorld = [''HOME=/root'', ''LANG=C'']"
  "os_Stat exampleWorld p = Inl (ErrNotExist (''stat '' @ p @ '': no such file or directory''))"
  "exec_CombinedOutput exampleWorld argv env dir = ([], None)"
  "os_Open exampleWorld ''/tmp/1/main.wasm'' = Inr 1"
  "files exampleWorld f = (if f = 1 then ''wasm'' else [])"
  "time_Now exampleWorld = 0"
  by (simp_all add: exampleWorld_def)

lemma initial_sel [simp]: "tmpOutputDir initial = []" "waitChannel initial = []"
  by (simp_all add: initial_def)

lemma diskWorld_sel [simp]:
  "os_Stat diskWorld ''sub'' = Inr (FileInfo True)"
  "os_Stat diskWorld ''main.wasm'' = Inr (FileInfo False)"
  "os_Stat diskWorld ''_notify'' = Inr (FileInfo False)"
  "ioutil_TempDir diskWorld = Inr ''/tmp/1''"
  "flagAllowOrigin diskWorld = []"
  "time_Now diskWorld = 0"
  by (simp_all add: diskWorld_def exampleWorld_def)

lemma noExecutableWorld_sel [simp]:
  "os_Stat noExecutableWorld p = Inl (ErrNotExist (''stat '' @ p @ '': no such file or directory''))"
  "os_Executable noExecutableWorld = Inl (OtherError ''readlink /proc/self/exe: permission denied'')"
  "ioutil_TempDir noExecutableWorld = Inr ''/tmp/1''"
  "flagAllowOrigin noExecutableWorld = []"
  by (simp_all add: noExecutableWorld_def exampleWorld_def)

lemma noTempDirWorld_sel [simp]:
  "os_Stat noTempDirWorld ''sub'' = Inr (FileInfo True)"
  "ioutil_TempDir noTempDirWorld = Inl (OtherError ''mkdir /tmp/123: read-only file system'')"
  "flagAllowOrigin noTempDirWorld = []"
  by (simp_all add: noTempDirWorld_def diskWorld_def exampleWorld_def)

lemma ensure_example:
  "ensureTmpOutputDir exampleWorld initial =
     (Inr ''/tmp/1'', [MkTempDir ''/tmp/1''], initial\<lparr>tmpOutputDir := ''/tmp/1''\<rparr>)"
  "ensureTmpOutputDir diskWorld initial =
     (Inr ''/tmp/1'', [MkTempDir ''/tmp/1''], initial\<lparr>tmpOutputDir := ''/tmp/1''\<rparr>)"
  "ensureTmpOutputDir noExecutableWorld initial =
     (Inr ''/tmp/1'', [MkTempDir ''/tmp/1''], initial\<lparr>tmpOutputDir := ''/tmp/1''\<rparr>)"
  by (simp_all add: ensureTmpOutputDir_def)

lemma Join_examples:
  "filepath_Join [''/tmp/1'', ''main.wasm''] = ''/tmp/1/main.wasm''"
  "filepath_Join [''.'', ''/main.wasm''] = ''main.wasm''"
  by code_simp+




lemma copyWorld_sel [simp]:
  "os_Environ copyWorld = [''HOME=/root'', ''WASMSERVE=cp'']"
  "flag_Args copyWorld = [''a'', ''b'']"
  "os_Open copyWorld p = Inr 1"
  "os_Create copyWorld p = Inr 2"
  "files copyWorld f = (if f = 1 then ''hello'' else [])"
  "io_Copy copyWorld = None"
  by (simp_all add: copyWorld_def exampleWorld_def)

lemma sameFileWorld_sel [simp]:
  "os_Environ sameFileWorld = [''HOME=/root'', ''WASMSERVE=cp'']"
  "flag_Args sameFileWorld = [''a'', ''a'']"
  "os_Open sameFileWorld p = Inr 1"
  "os_Create sameFileWorld p = Inr 1"
  "files sameFileWorld f = (if f = 1 then ''hello'' else [])"
  "io_Copy sameFileWorld = None"
  by (simp_all add: sameFileWorld_def copyWorld_def exampleWorld_def)

lemma Getenv_copy [simp]: "Getenv [''HOME=/root'', ''WASMSERVE=cp''] ''WASMSERVE'' = ''cp''"
  by (simp add: Getenv_def)

lemma after_respond [simp]: "after (respond s es i h rep) = s"
  and effects_respond [simp]: "effects (respond s es i h rep) = es"
  and responses_respond [simp]: "responses (respond s es i h rep) = [(i, h, rep)]"
  by (simp_all add: respond_def)

lemma ensure_assigned:
  "tmpOutputDir s \<noteq> [] \<Longrightarrow> ensureTmpOutputDir w s = (Inr (tmpOutputDir s), [], s)"
  by (simp add: ensureTmpOutputDir_def)

lemma ensure_result:
  "ensureTmpOutputDir w s = (Inr p, es, s') \<Longrightarrow> tmpOutputDir s' = p"
  by (auto simp: ensureTmpOutputDir_def split: if_splits sum.splits)

lemma ensure_channel:
  "ensureTmpOutputDir w s = (x, es, s1) \<Longrightarrow> waitChannel s1 = waitChannel s"
  by (auto simp: ensureTmpOutputDir_def split: if_splits sum.splits)

lemma tempDirs_sel [simp]:
  "ioutil_TempDir (tempDirs i) = Inr (if i = 0 then ''/tmp/1'' else ''/tmp/2'')"
  by (simp add: tempDirs_def)

lemma noTempDir_simps [simp]:
  "noTempDir []" "noTempDir (es @ es') = (noTempDir es \<and> noTempDir es')"
  "noTempDir (Exec a b c # es) = noTempDir es" "noTempDir (Log l # es) = noTempDir es"
  "noTempDir (Open p # es) = noTempDir es" "noTempDir (MkTempDir p # es) = False"
  by (auto simp: noTempDir_def)

lemma serveIndex_noTempDir: "noTempDir (snd (serveIndex w output fpath))"
  by (simp add: serveIndex_def split: sum.splits option.splits)

lemma serveWasmExec_noTempDir: "noTempDir (snd (serveWasmExec w fpath))"
  by (simp add: serveWasmExec_def Let_def split: sum.splits option.splits)

lemma serveMainWasm_noTempDir: "noTempDir (snd (serveMainWasm w output fpath))"
  by (simp add: serveMainWasm_def Let_def split: sum.splits option.splits prod.splits)

text \<open>The loop of \<^verbatim>\<open>notifyWaiters\<close> in closed form.\<close>

lemma notifyLoop_eq:
  "notifyLoop w i h q = (map (released w) q @ [(i, h, ServeContent [] (time_Now w) [])], [])"
  by (induction q) simp_all

lemma notifyWaiters_eq:
  "notifyWaiters w i h s =
     \<lparr>responses = map (released w) (waitChannel s) @ [(i, h, ServeContent [] (time_Now w) [])],
      effects = [], after = s\<lparr>waitChannel := []\<rparr>\<rparr>"
  by (simp add: notifyWaiters_def notifyLoop_eq)

lemma answers_released:
  "answers (map (released w) q) i = length (filter (\<lambda>g. fst g = i) q)"
  by (induction q) (auto simp: answers_def released_def)

lemma distinct_fst_count:
  "distinct (map fst q) \<Longrightarrow> g \<in> set q \<Longrightarrow> length (filter (\<lambda>x. fst x = fst g) q) = 1"
proof (induction q)
  case Nil
  then show ?case by simp
next
  case (Cons a q)
  show ?case
  proof (cases "a = g")
    case True
    with Cons.prems have "\<forall>x\<in>set q. fst x \<noteq> fst g" by (auto simp: image_iff)
    then have "filter (\<lambda>x. fst x = fst g) q = []" by (simp add: filter_empty_conv)
    with True show ?thesis by simp
  next
    case False
    with Cons.prems have gq: "g \<in> set q" by simp
    with Cons.prems have "fst a \<noteq> fst g" by (auto simp: image_iff)
    with Cons gq show ?thesis by simp
  qed
qed

text \<open>Once the variable is set, a request neither changes it nor creates a directory.\<close>

lemma handle_assigned:
  assumes "tmpOutputDir s \<noteq> []"
  shows "tmpOutputDir (after (handle w r s)) = tmpOutputDir s \<and> noTempDir (effects (handle w r s))"
  using serveIndex_noTempDir [of w "tmpOutputDir s"] serveWasmExec_noTempDir [of w]
    serveMainWasm_noTempDir [of w "tmpOutputDir s"]
  by (auto simp: handle_def Let_def ensure_assigned [OF assms] notifyWaiters_eq waitForUpdate_def
      case_prod_beta split: option.splits)

lemma serve_assigned:
  "tmpOutputDir s \<noteq> [] \<Longrightarrow>
     tmpOutputDir (after (serve reqs s)) = tmpOutputDir s \<and> noTempDir (effects (serve reqs s))"
proof (induction reqs arbitrary: s)
  case Nil
  then show ?case by simp
next
  case (Cons a reqs)
  obtain w r where a: "a = (w, r)" by (cases a)
  from handle_assigned [OF Cons.prems, of w r]
  have h: "tmpOutputDir (after (handle w r s)) = tmpOutputDir s" "noTempDir (effects (handle w r s))"
    by simp_all
  with Cons.prems have "tmpOutputDir (after (handle w r s)) \<noteq> []" by simp
  from Cons.IH [OF this] h show ?case by (simp add: a Let_def)
qed

text \<open>Paths of one segment, and the parts of the handler when the file exists.\<close>

lemma path_Base_segment:
  assumes "name \<noteq> []" and "CHR ''/'' \<notin> set name"
  shows "path_Base name = name"
proof -
  from assms have "hd (rev name) \<noteq> CHR ''/''"
    by (metis hd_rev last_in_set)
  with assms(1) have d: "dropWhile (\<lambda>c. c = CHR ''/'') (rev name) = rev name"
    by (cases "rev name") simp_all
  from assms(2) have t: "takeWhile (\<lambda>c. c \<noteq> CHR ''/'') (rev name) = rev name"
    by (auto simp: takeWhile_eq_all_conv)
  show ?thesis using assms(1) by (simp add: path_Base_def Let_def d t)
qed

lemma HasSuffix_segment:
  assumes "name \<noteq> []" and "CHR ''/'' \<notin> set name"
  shows "\<not> HasSuffix (CHR ''/'' # name) ''/''"
proof
  assume "HasSuffix (CHR ''/'' # name) ''/''"
  then obtain zs where "CHR ''/'' # name = zs @ ''/''" by (auto simp: HasSuffix_def suffix_def)
  with assms(1) have "last name = CHR ''/''" by (metis last_ConsR last_snoc)
  with assms show False using last_in_set by metis
qed

lemma ensure_builds: "ensureTmpOutputDir w s = (x, es, s1) \<Longrightarrow> builds es = []"
  by (auto simp: ensureTmpOutputDir_def builds_def split: if_splits sum.splits)

lemma builds_append [simp]: "builds (es @ es') = builds es @ builds es'"
  by (simp add: builds_def)

lemma isBuild_buildArgs [simp]: "isBuild (Exec (''go'' # buildArgs w exc output) env dir)"
  by (simp add: buildArgs_def)

lemma serveIndex_builds: "builds (snd (serveIndex w output fpath)) = []"
  by (simp add: serveIndex_def builds_def split: sum.splits option.splits)

lemma serveWasmExec_builds: "builds (snd (serveWasmExec w fpath)) = []"
  by (simp add: serveWasmExec_def builds_def Let_def split: sum.splits option.splits)


lemma exists_falls_through:
  assumes "os_Stat w fpath = Inr fi"
  shows "serveIndex w output fpath = (None, [])"
    and "serveWasmExec w fpath = (None, [])"
    and "serveMainWasm w output fpath = (None, [])"
  using assms by (simp_all add: serveIndex_def serveWasmExec_def serveMainWasm_def)

lemma builds_Nil [simp]: "builds [] = []"
  by (simp add: builds_def)


lemma names_cases:
  obtains "name = ''.''" | "name = ''index.html''" | "name = ''wasm_exec.js''"
  | "name = ''main.wasm''" | "name = ''_wait''" | "name = ''_notify''"
  | "name \<noteq> ''.''" "name \<noteq> ''index.html''" "name \<noteq> ''wasm_exec.js''"
    "name \<noteq> ''main.wasm''" "name \<noteq> ''_wait''" "name \<noteq> ''_notify''"
  by blast

section \<open>The reload channel\<close>

text \<open>
  The two functions of the channel are what \<^verbatim>\<open>handle\<close> runs for the paths
  \<^verbatim>\<open>/_wait\<close> and \<^verbatim>\<open>/_notify\<close>, once the output directory is there and the
  redirection check lets the request through.
\<close>

lemma reload_paths:
  assumes "ensureTmpOutputDir w s = (Inr dir, es, s1)"
  shows "URL_Path r = ''/_wait'' \<Longrightarrow> redirectCheck w r ''_wait'' = None \<Longrightarrow>
           handle w r s = (waitForUpdate (rid r) (allowOrigin w) s1)\<lparr>effects := es\<rparr>"
    and "URL_Path r = ''/_notify'' \<Longrightarrow> redirectCheck w r ''_notify'' = None \<Longrightarrow>
           handle w r s = (notifyWaiters w (rid r) (allowOrigin w) s1)\<lparr>effects := es\<rparr>"
  using assms
  by (simp_all add: handle_def Let_def path_Base_segment filepath_Base_def waitForUpdate_def
      notifyWaiters_eq)

text \<open>
  Claim C1, as the code has it. The claim says that one \<^verbatim>\<open>notify()\<close> releases at most
  one pending \<^verbatim>\<open>wait()\<close>. The loop of \<^verbatim>\<open>notifyWaiters\<close> receives until no sender is
  left, so one call releases every goroutine blocked in \<^verbatim>\<open>waitForUpdate\<close>: each
  writes its empty response exactly once, the caller writes its own, and the channel
  is left with no sender. A \<^verbatim>\<open>wait()\<close> never writes a response before that.
\<close>

theorem notify_releases_every_waiter:
  assumes "distinct (map fst (waitChannel s))" and "i \<notin> fst ` set (waitChannel s)"
  shows "responses (notifyWaiters w i h s) =
           map (released w) (waitChannel s) @ [(i, h, ServeContent [] (time_Now w) [])]
         \<and> waitChannel (after (notifyWaiters w i h s)) = []
         \<and> (\<forall>g \<in> set (waitChannel s). answers (responses (notifyWaiters w i h s)) (fst g) = 1)
         \<and> answers (responses (notifyWaiters w i h s)) i = 1
         \<and> responses (waitForUpdate j h' s) = []"
proof -
  have a: "\<forall>g \<in> set (waitChannel s). answers (responses (notifyWaiters w i h s)) (fst g) = 1"
  proof
    fix g assume g: "g \<in> set (waitChannel s)"
    then have "fst g \<noteq> i" using assms(2) by auto
    then show "answers (responses (notifyWaiters w i h s)) (fst g) = 1"
      using distinct_fst_count [OF assms(1) g] answers_released [of w "waitChannel s" "fst g"]
      by (simp add: notifyWaiters_eq answers_def)
  qed
  have "filter (\<lambda>g. fst g = i) (waitChannel s) = []"
    using assms(2) by (auto simp: filter_empty_conv)
  then have b: "answers (responses (notifyWaiters w i h s)) i = 1"
    using answers_released [of w "waitChannel s" i]
    by (simp add: notifyWaiters_eq answers_def)
  show ?thesis using a b by (simp add: notifyWaiters_eq waitForUpdate_def)
qed

theorem notify_releases_every_waiter_witness:
  "distinct (map fst [(1::nat, [] :: header), (2, [])])
   \<and> (3::nat) \<notin> fst ` set [(1::nat, [] :: header), (2, [])]
   \<and> responses (notifyWaiters exampleWorld 3 [] (initial\<lparr>waitChannel := [(1, []), (2, [])]\<rparr>)) =
        [(1, [], ServeContent [] (time_Now exampleWorld) []),
         (2, [], ServeContent [] (time_Now exampleWorld) []),
         (3, [], ServeContent [] (time_Now exampleWorld) [])]
   \<and> answers (responses (notifyWaiters exampleWorld 3 [] (initial\<lparr>waitChannel := [(1, []), (2, [])]\<rparr>))) 2 = 1"
  using notify_releases_every_waiter [of "initial\<lparr>waitChannel := [(1, []), (2, [])]\<rparr>" 3 exampleWorld "[]" 4 "[]"]
  by (simp add: released_def answers_def)

text \<open>
  Two requests wait, then one request notifies: the single call of \<^verbatim>\<open>notifyWaiters\<close>
  completes both waits.
\<close>

theorem one_notify_releases_two_waiters:
  "responses (notifyWaiters exampleWorld 3 []
      (after (waitForUpdate 2 [] (after (waitForUpdate 1 [] initial))))) =
     [(1, [], ServeContent [] (time_Now exampleWorld) []),
      (2, [], ServeContent [] (time_Now exampleWorld) []),
      (3, [], ServeContent [] (time_Now exampleWorld) [])]"
  by (simp add: notifyWaiters_def waitForUpdate_def initial_def released_def)

text \<open>
  A request for \<^verbatim>\<open>/_notify\<close> that finds no sender on the channel, and any number of
  them one after the other once the output directory is assigned.
\<close>

lemma notify_request:
  assumes "ensureTmpOutputDir w s = (Inr dir, es, s1)" and "waitChannel s = []"
    and "URL_Path r = ''/_notify''" and "redirectCheck w r ''_notify'' = None"
  shows "handle w r s =
           \<lparr>responses = [(rid r, allowOrigin w, ServeContent [] (time_Now w) [])],
            effects = es, after = s1\<rparr>"
  using reload_paths(2) [OF assms(1,3,4)] ensure_channel [OF assms(1)] assms(2)
  by (simp add: notifyWaiters_eq)

lemma notify_requests:
  assumes "tmpOutputDir s \<noteq> []" and "waitChannel s = []"
    and "\<forall>(w, r) \<in> set reqs. URL_Path r = ''/_notify'' \<and> redirectCheck w r ''_notify'' = None"
  shows "serve reqs s =
           \<lparr>responses = map (\<lambda>(w, r). (rid r, allowOrigin w, ServeContent [] (time_Now w) [])) reqs,
            effects = [], after = s\<rparr>"
  using assms(3)
proof (induction reqs)
  case Nil
  show ?case by simp
next
  case (Cons a reqs)
  obtain w r where a: "a = (w, r)" by (cases a)
  from Cons.prems a have r: "URL_Path r = ''/_notify''" "redirectCheck w r ''_notify'' = None"
    by simp_all
  from Cons.prems have rest: "\<forall>(w, r) \<in> set reqs.
      URL_Path r = ''/_notify'' \<and> redirectCheck w r ''_notify'' = None"
    by simp
  note h = notify_request [OF ensure_assigned [OF assms(1), of w] assms(2) r]
  show ?case using h Cons.IH [OF rest] by (simp add: a Let_def)
qed

text \<open>
  Claim C2, as the code has it. The claim promises the empty success response to every
  request for \<^verbatim>\<open>/_notify\<close> made while no request waits. The handler first makes sure of
  the output directory and answers 500 when it cannot be created, and it answers with
  a redirection (or 500) when \<open>_notify\<close> names a directory (or cannot be examined). So:
  for a request for \<^verbatim>\<open>/_notify\<close> while no goroutine waits on the channel, the output
  directory being available and the redirection check letting the request through,
  \<^verbatim>\<open>notifyWaiters\<close> takes the \<^verbatim>\<open>default\<close> case at once: the handler writes the empty
  content and nothing else, and the channel still has no sender. No signal is kept:
  any number of such requests after it are each answered the same way and leave the
  state as it was, so a later request, a \<^verbatim>\<open>wait()\<close> in particular, is handled as it is
  in the state that \<^verbatim>\<open>ensureTmpOutputDir\<close> left.
\<close>

theorem notify_request_without_waiters:
  assumes "waitChannel s = []"
    and "ensureTmpOutputDir w s = (Inr dir, es, s1)" and "dir \<noteq> []"
    and "URL_Path r = ''/_notify''" and "redirectCheck w r ''_notify'' = None"
    and "\<forall>(w', r') \<in> set reqs.
           URL_Path r' = ''/_notify'' \<and> redirectCheck w' r' ''_notify'' = None"
  shows "handle w r s =
           \<lparr>responses = [(rid r, allowOrigin w, ServeContent [] (time_Now w) [])],
            effects = es, after = s1\<rparr>
         \<and> waitChannel s1 = []
         \<and> serve reqs s1 =
             \<lparr>responses = map (\<lambda>(w', r'). (rid r', allowOrigin w', ServeContent [] (time_Now w') [])) reqs,
              effects = [], after = s1\<rparr>
         \<and> handle w2 r2 (after (serve ((w, r) # reqs) s)) = handle w2 r2 s1"
proof -
  note one = notify_request [OF assms(2,1,4,5)]
  have c: "waitChannel s1 = []" using ensure_channel [OF assms(2)] assms(1) by simp
  have d: "tmpOutputDir s1 \<noteq> []" using ensure_result [OF assms(2)] assms(3) by simp
  note many = notify_requests [OF d c assms(6)]
  show ?thesis using one c many by (simp add: Let_def)
qed

theorem notify_request_without_waiters_witness:
  "waitChannel initial = []
   \<and> ensureTmpOutputDir exampleWorld initial =
       (Inr ''/tmp/1'', [MkTempDir ''/tmp/1''], initial\<lparr>tmpOutputDir := ''/tmp/1''\<rparr>)
   \<and> redirectCheck exampleWorld \<lparr>rid = 1, URL_Path = ''/_notify''\<rparr> ''_notify'' = None
   \<and> redirectCheck exampleWorld \<lparr>rid = 2, URL_Path = ''/_notify''\<rparr> ''_notify'' = None
   \<and> handle exampleWorld \<lparr>rid = 1, URL_Path = ''/_notify''\<rparr> initial =
       \<lparr>responses = [(1, [], ServeContent [] 0 [])], effects = [MkTempDir ''/tmp/1''],
        after = initial\<lparr>tmpOutputDir := ''/tmp/1''\<rparr>\<rparr>
   \<and> serve [(exampleWorld, \<lparr>rid = 2, URL_Path = ''/_notify''\<rparr>)] (initial\<lparr>tmpOutputDir := ''/tmp/1''\<rparr>) =
       \<lparr>responses = [(2, [], ServeContent [] 0 [])], effects = [],
        after = initial\<lparr>tmpOutputDir := ''/tmp/1''\<rparr>\<rparr>
   \<and> handle exampleWorld \<lparr>rid = 3, URL_Path = ''/_wait''\<rparr>
        (after (serve [(exampleWorld, \<lparr>rid = 1, URL_Path = ''/_notify''\<rparr>),
                       (exampleWorld, \<lparr>rid = 2, URL_Path = ''/_notify''\<rparr>)] initial)) =
       handle exampleWorld \<lparr>rid = 3, URL_Path = ''/_wait''\<rparr> (initial\<lparr>tmpOutputDir := ''/tmp/1''\<rparr>)"
proof -
  have c: "waitChannel initial = []" by simp
  have n: "''/tmp/1'' \<noteq> []" by simp
  have r1: "redirectCheck exampleWorld \<lparr>rid = 1, URL_Path = ''/_notify''\<rparr> ''_notify'' = None"
    by (simp add: redirectCheck_def)
  have r2: "redirectCheck exampleWorld \<lparr>rid = 2, URL_Path = ''/_notify''\<rparr> ''_notify'' = None"
    by (simp add: redirectCheck_def)
  have u: "URL_Path \<lparr>rid = 1, URL_Path = ''/_notify''\<rparr> = ''/_notify''" by simp
  have q: "\<forall>(w', r') \<in> set [(exampleWorld, \<lparr>rid = 2, URL_Path = ''/_notify''\<rparr>)].
      URL_Path r' = ''/_notify'' \<and> redirectCheck w' r' ''_notify'' = None"
    using r2 by simp
  show ?thesis
    using c r1 r2 ensure_example(1)
      notify_request_without_waiters [OF c ensure_example(1) n u r1 q,
        of exampleWorld "\<lparr>rid = 3, URL_Path = ''/_wait''\<rparr>"]
    by (simp add: allowOrigin_def)
qed

text \<open>
  The first request of the process is for \<^verbatim>\<open>/_notify\<close>, no request waits, and the
  temporary directory cannot be created: the answer is 500, not the empty success
  response.
\<close>

theorem notify_fails_without_output_directory:
  "waitChannel initial = []
   \<and> responses (handle noTempDirWorld \<lparr>rid = 1, URL_Path = ''/_notify''\<rparr> initial) =
       [(1, [], Error ''mkdir /tmp/123: read-only file system'' 500)]"
  by (simp add: handle_def Let_def ensureTmpOutputDir_def allowOrigin_def)

section \<open>The output directory\<close>

text \<open>
  Calls that come one after the other, none starting before the last has returned:
  after a call of \<^verbatim>\<open>ensureTmpOutputDir\<close> has returned a path (a non-empty string, as
  \<^verbatim>\<open>ioutil.TempDir\<close> returns), every later call returns that path and creates nothing,
  whatever the world gives then; no request handled in between changes the variable
  or creates a temporary directory.
\<close>

lemma calls_in_turn_reuse_the_directory:
  assumes "ensureTmpOutputDir w s = (Inr p, es, s')" and "p \<noteq> []"
  shows "ensureTmpOutputDir w' s' = (Inr p, [], s')
         \<and> tmpOutputDir (after (serve reqs s')) = p
         \<and> (\<forall>d. MkTempDir d \<notin> set (effects (serve reqs s')))
         \<and> ensureTmpOutputDir w' (after (serve reqs s')) = (Inr p, [], after (serve reqs s'))"
proof -
  from assms have p: "tmpOutputDir s' = p" "tmpOutputDir s' \<noteq> []"
    by (simp_all add: ensure_result)
  from serve_assigned [OF p(2), of reqs] p
  have q: "tmpOutputDir (after (serve reqs s')) = p" "noTempDir (effects (serve reqs s'))"
    by simp_all
  from q(1) assms(2) have "tmpOutputDir (after (serve reqs s')) \<noteq> []" by simp
  from ensure_assigned [OF this, of w'] ensure_assigned [OF p(2), of w'] p q
  show ?thesis by (simp add: noTempDir_def)
qed

text \<open>
  A call whose lines run with no line of another call in between does what
  \<^verbatim>\<open>ensureTmpOutputDir\<close>, taken as one step, does: four lines at most, after which it
  has returned.
\<close>

lemma call_alone:
  assumes "i < length (calls p)" and "calls p ! i = Line74"
  shows "run W [i, i, i, i] p =
           (case ensureTmpOutputDir (W i) (state.truncate p) of
              (x, es, s) \<Rightarrow> p\<lparr>tmpOutputDir := tmpOutputDir s,
                              calls := (calls p)[i := Return x],
                              created := created p @ es\<rparr>)"
  using assms
  by (cases "ioutil_TempDir (W i)")
    (simp_all add: step_def ensureTmpOutputDir_def state.truncate_def)

lemma calls_in_turn:
  "run tempDirs [0, 0, 0, 0, 1, 1, 1, 1, 2, 2, 2, 2] threeCalls =
     \<lparr>tmpOutputDir = ''/tmp/1'', waitChannel = [],
      calls = [Return (Inr ''/tmp/1''), Return (Inr ''/tmp/1''), Return (Inr ''/tmp/1'')],
      created = [MkTempDir ''/tmp/1'']\<rparr>"
  by (simp add: step_def threeCalls_def)

text \<open>
  Claim C8, where the code departs from it. The claim says that after the first
  successful call has returned a path, every later call returns that path and creates
  no directory. Two requests arrive together at a fresh server: calls 0 and 1 both
  pass the test of line 74 before either assigns the variable. Call 0 creates
  \<open>/tmp/1\<close>, assigns it and returns it. Call 1 then creates \<open>/tmp/2\<close>, assigns it and
  returns it. Call 2 starts only after call 0 has returned (it is still at line 74
  then), and it returns \<open>/tmp/2\<close>: the path has changed after it was assigned, and two
  temporary directories have been created.
\<close>

theorem concurrent_first_calls_create_two_directories:
  "calls (run tempDirs [0, 1, 0, 0, 0] threeCalls) = [Return (Inr ''/tmp/1''), Line78, Line74]
   \<and> run tempDirs [0, 1, 0, 0, 0, 1, 1, 1, 2, 2] threeCalls =
       \<lparr>tmpOutputDir = ''/tmp/2'', waitChannel = [],
        calls = [Return (Inr ''/tmp/1''), Return (Inr ''/tmp/2''), Return (Inr ''/tmp/2'')],
        created = [MkTempDir ''/tmp/1'', MkTempDir ''/tmp/2'']\<rparr>"
  by (simp add: step_def threeCalls_def)

section \<open>Copy mode\<close>

text \<open>
  Claim C10. In copy mode (\<^verbatim>\<open>WASMSERVE=cp\<close>) with fewer than two positional
  arguments, \<^verbatim>\<open>main\<close> panics with an index out of range at \<^verbatim>\<open>flag.Args()[0]\<close> or
  \<^verbatim>\<open>flag.Args()[1]\<close>: no file has been opened or created, no listener started, and no
  diagnostic is written through \<^verbatim>\<open>log.Fatal\<close>.
\<close>

theorem copy_mode_too_few_args_panics:
  assumes "Getenv (os_Environ w) ''WASMSERVE'' = ''cp''" and "length (flag_Args w) < 2"
  shows "main w =
           (Panicked (if flag_Args w = [] then ''index out of range [0] with length 0''
                      else ''index out of range [1] with length 1''), [])"
  using assms by (auto simp: main_def split: list.splits)

theorem copy_mode_too_few_args_panics_witness:
  "Getenv (os_Environ (copyWorld\<lparr>flag_Args := [''a'']\<rparr>)) ''WASMSERVE'' = ''cp''
   \<and> length (flag_Args (copyWorld\<lparr>flag_Args := [''a'']\<rparr>)) < 2
   \<and> main (copyWorld\<lparr>flag_Args := [''a'']\<rparr>) =
       (Panicked ''index out of range [1] with length 1'', [])"
  using copy_mode_too_few_args_panics [of "copyWorld\<lparr>flag_Args := [''a'']\<rparr>"]
  by simp

text \<open>
  Claim C7, as the code has it. The claim promises the copy for every openable source
  and creatable destination. \<^verbatim>\<open>os.Create\<close> truncates the destination before
  \<^verbatim>\<open>io.Copy\<close> reads the source, and \<^verbatim>\<open>io.Copy\<close> can fail. So: in copy mode, when
  the source opens, the destination is created and is another file than the source,
  and \<^verbatim>\<open>io.Copy\<close> reports no error, \<^verbatim>\<open>main\<close> returns with the destination holding
  exactly the bytes of the source and every other file, the source among them, as it
  was; the files were opened and created once and no listener was started.
\<close>

theorem copy_mode_copies:
  assumes "Getenv (os_Environ w) ''WASMSERVE'' = ''cp''"
    and "flag_Args w = src # dst # rest"
    and "os_Open w src = Inr f" and "os_Create w dst = Inr g"
    and "f \<noteq> g" and "io_Copy w = None"
  shows "main w = (Returned ((files w)(g := files w f)), [Open src, Create dst])"
  using assms by (simp add: main_def)

theorem copy_mode_copies_witness:
  "Getenv (os_Environ copyWorld) ''WASMSERVE'' = ''cp''
   \<and> flag_Args copyWorld = [''a'', ''b'']
   \<and> os_Open copyWorld ''a'' = Inr 1 \<and> os_Create copyWorld ''b'' = Inr 2
   \<and> files copyWorld 1 = ''hello''
   \<and> main copyWorld = (Returned ((files copyWorld)(2 := ''hello'')), [Open ''a'', Create ''b''])"
  using copy_mode_copies [of copyWorld "''a''" "''b''" "[]" 1 2]
  by simp

text \<open>
  Copy mode with the same file as source and destination: both open, the process
  returns normally, and the file, which held \<open>hello\<close>, is left empty.
\<close>

theorem copy_onto_itself_loses_the_source:
  "Getenv (os_Environ sameFileWorld) ''WASMSERVE'' = ''cp''
   \<and> flag_Args sameFileWorld = [''a'', ''a'']
   \<and> os_Open sameFileWorld ''a'' = Inr 1 \<and> os_Create sameFileWorld ''a'' = Inr 1
   \<and> files sameFileWorld 1 = ''hello''
   \<and> main sameFileWorld = (Returned ((files sameFileWorld)(1 := [])), [Open ''a'', Create ''a''])"
  by (simp add: main_def)

section \<open>Routing\<close>

text \<open>
  Claim C5, as the code has it. The claim promises the redirection for every request
  of a directory without its slash. The handler first makes sure of the output
  directory and answers 500 when it cannot be created. So: for a request whose path is
  one segment (no slash after the leading one) naming an existing directory, the
  output directory being available, the handler answers with a redirection, status
  303, to the path with a slash appended, and does nothing else.
\<close>

theorem directory_redirect:
  assumes "URL_Path r = CHR ''/'' # name" and "name \<noteq> []" and "CHR ''/'' \<notin> set name"
    and "os_Stat w name = Inr fi" and "IsDir fi"
    and "ensureTmpOutputDir w s = (Inr output, es, s1)"
  shows "handle w r s =
           \<lparr>responses = [(rid r, allowOrigin w, Redirect (URL_Path r @ ''/'') 303)],
            effects = es, after = s1\<rparr>"
  using assms HasSuffix_segment [OF assms(2,3)]
  by (simp add: handle_def Let_def path_Base_segment redirectCheck_def respond_def)

theorem directory_redirect_witness:
  "os_Stat diskWorld ''sub'' = Inr (FileInfo True) \<and> IsDir (FileInfo True)
   \<and> handle diskWorld \<lparr>rid = 1, URL_Path = ''/sub''\<rparr> initial =
       \<lparr>responses = [(1, [], Redirect ''/sub/'' 303)], effects = [MkTempDir ''/tmp/1''],
        after = initial\<lparr>tmpOutputDir := ''/tmp/1''\<rparr>\<rparr>"
  using directory_redirect [of "\<lparr>rid = 1, URL_Path = ''/sub''\<rparr>" "''sub''" diskWorld
      "FileInfo True" initial "''/tmp/1''" "[MkTempDir ''/tmp/1'']"
      "initial\<lparr>tmpOutputDir := ''/tmp/1''\<rparr>"]
  by (simp add: ensure_example allowOrigin_def)

text \<open>
  The first request of the process for the directory \<open>sub\<close>, when the temporary
  directory cannot be created: the answer is 500, not the redirection.
\<close>

theorem no_redirect_without_output_directory:
  "os_Stat noTempDirWorld ''sub'' = Inr (FileInfo True)
   \<and> responses (handle noTempDirWorld \<lparr>rid = 1, URL_Path = ''/sub''\<rparr> initial) =
       [(1, [], Error ''mkdir /tmp/123: read-only file system'' 500)]"
  by (simp add: handle_def Let_def ensureTmpOutputDir_def allowOrigin_def)

text \<open>
  Claim C4, as the code has it. The claim sends every request of an existing file to
  the static file server. The cases \<^verbatim>\<open>"_wait"\<close> and \<^verbatim>\<open>"_notify"\<close> of the
  \<^verbatim>\<open>switch\<close> do not look at the disk, and the handler answers 500 when the output
  directory cannot be created. So: a request whose path is one segment naming an
  existing file that is not a directory never runs a build command, whatever the
  name; and when the output directory is available and the name is neither \<open>_wait\<close> nor
  \<open>_notify\<close> (nor \<open>.\<close>, which names no such file), the handler serves the file of the
  request's path and does nothing else.
\<close>

theorem existing_file_is_served:
  assumes "URL_Path r = CHR ''/'' # name" and "name \<noteq> []" and "CHR ''/'' \<notin> set name"
    and "os_Stat w name = Inr fi" and "\<not> IsDir fi"
  shows "builds (effects (handle w r s)) = []
         \<and> (\<forall>output es s1.
              ensureTmpOutputDir w s = (Inr output, es, s1) \<and> name \<noteq> ''.''
              \<and> name \<noteq> ''_wait'' \<and> name \<noteq> ''_notify'' \<longrightarrow>
              handle w r s =
                \<lparr>responses = [(rid r, allowOrigin w, ServeFile (filepath_Join [''.'', URL_Path r]))],
                 effects = es, after = s1\<rparr>)"
proof -
  obtain x es s1 where e: "ensureTmpOutputDir w s = (x, es, s1)" by (cases "ensureTmpOutputDir w s")
  note b = ensure_builds [OF e]
  have base: "path_Base name = name" "filepath_Base name = name"
    using assms(2,3) by (simp_all add: path_Base_segment filepath_Base_def)
  have red: "redirectCheck w r name = None"
    using assms by (simp add: redirectCheck_def)
  note ex = exists_falls_through [OF assms(4)]
  have 1: "builds (effects (handle w r s)) = []"
  proof (cases x)
    case (Inl err)
    with e b show ?thesis by (simp add: handle_def Let_def)
  next
    case (Inr dir)
    show ?thesis
      by (cases name rule: names_cases)
        (use assms(1) e b base red ex Inr in
          \<open>simp_all add: handle_def Let_def notifyWaiters_eq waitForUpdate_def
             case_prod_beta serveIndex_builds\<close>)
  qed
  have 2: "handle w r s =
      \<lparr>responses = [(rid r, allowOrigin w, ServeFile (filepath_Join [''.'', URL_Path r]))],
       effects = es', after = s1'\<rparr>"
    if "ensureTmpOutputDir w s = (Inr dir, es', s1')" "name \<noteq> ''.''"
      "name \<noteq> ''_wait''" "name \<noteq> ''_notify''" for dir es' s1'
    by (cases name rule: names_cases)
      (use that assms(1) base red ex in \<open>simp_all add: handle_def Let_def respond_def\<close>)
  show ?thesis using 1 2 by blast
qed

theorem existing_file_is_served_witness:
  "os_Stat diskWorld ''main.wasm'' = Inr (FileInfo False) \<and> \<not> IsDir (FileInfo False)
   \<and> builds (effects (handle diskWorld \<lparr>rid = 1, URL_Path = ''/main.wasm''\<rparr> initial)) = []
   \<and> handle diskWorld \<lparr>rid = 1, URL_Path = ''/main.wasm''\<rparr> initial =
       \<lparr>responses = [(1, [], ServeFile ''main.wasm'')], effects = [MkTempDir ''/tmp/1''],
        after = initial\<lparr>tmpOutputDir := ''/tmp/1''\<rparr>\<rparr>"
  using existing_file_is_served [of "\<lparr>rid = 1, URL_Path = ''/main.wasm''\<rparr>" "''main.wasm''"
      diskWorld "FileInfo False" initial]
  by (simp add: ensure_example Join_examples allowOrigin_def builds_def)

text \<open>
  A regular file named \<open>_notify\<close> exists; the request for it is answered by
  \<^verbatim>\<open>notifyWaiters\<close>, with the empty content, and not by the static file server.
\<close>

theorem existing_control_file_is_not_served:
  "os_Stat diskWorld ''_notify'' = Inr (FileInfo False)
   \<and> responses (handle diskWorld \<lparr>rid = 1, URL_Path = ''/_notify''\<rparr> initial) =
       [(1, [], ServeContent [] 0 [])]"
  by (simp add: handle_def Let_def ensure_example path_Base_segment filepath_Base_def
      redirectCheck_def allowOrigin_def notifyWaiters_eq HasSuffix_def suffix_def)

section \<open>The build\<close>

text \<open>
  Claim C3, as the code has it. The claim promises one build attempt for every
  request of the artifact that finds no file. The handler returns before the build
  when the output directory cannot be created or the path of the executable cannot be
  found, and after a successful build the artifact can fail to open. So: for a request
  of \<open>/main.wasm\<close> when no file \<open>main.wasm\<close> exists, the output directory being
  available and the path of the executable known, the handler runs exactly one build
  command; when the build fails it answers 500 with the combined output of the build
  as the text; when it succeeds it serves the content of the artifact in the output
  directory (status 200), or answers 500 with the error of opening it.
\<close>

theorem artifact_is_built:
  assumes "URL_Path r = ''/main.wasm''"
    and "os_Stat w ''main.wasm'' = Inl e" and "IsNotExist e"
    and "ensureTmpOutputDir w s = (Inr output, es, s1)"
    and "os_Executable w = Inr exc"
  shows "builds (effects (handle w r s)) = [Exec (''go'' # buildArgs w exc output) (buildEnv w) ''.'']
         \<and> responses (handle w r s) =
             [(rid r, allowOrigin w,
               (case exec_CombinedOutput w (''go'' # buildArgs w exc output) (buildEnv w) ''.'' of
                  (out, Some err) \<Rightarrow> Error out 500
                | (out, None) \<Rightarrow>
                    (case os_Open w (filepath_Join [output, ''main.wasm'']) of
                       Inl err \<Rightarrow> Error (Error_text err) 500
                     | Inr f \<Rightarrow> ServeContent ''main.wasm'' (time_Now w) (files w f))))]
         \<and> after (handle w r s) = s1"
proof -
  have base: "path_Base ''main.wasm'' = ''main.wasm''" "filepath_Base ''main.wasm'' = ''main.wasm''"
    by (simp_all add: path_Base_segment filepath_Base_def)
  have suf: "\<not> HasSuffix ''/main.wasm'' ''/''"
    by (simp add: HasSuffix_def suffix_def)
  have red: "redirectCheck w r ''main.wasm'' = None"
    using assms by (simp add: redirectCheck_def)
  show ?thesis
    using assms base red ensure_builds [OF assms(4)]
    by (auto simp: handle_def Let_def respond_def serveMainWasm_def builds_def
        split: prod.splits option.splits sum.splits)
qed

theorem artifact_is_built_witness:
  "os_Stat exampleWorld ''main.wasm'' =
     Inl (ErrNotExist ''stat main.wasm: no such file or directory'')
   \<and> os_Executable exampleWorld = Inr ''/bin/wasmserve''
   \<and> builds (effects (handle exampleWorld \<lparr>rid = 1, URL_Path = ''/main.wasm''\<rparr> initial)) =
       [Exec [''go'', ''run'', ''-exec'', ''/bin/wasmserve'', ''.'', ''/tmp/1/main.wasm'']
          [''HOME=/root'', ''LANG=C'', ''GOOS=js'', ''GOARCH=wasm'', ''WASMSERVE=cp''] ''.'']
   \<and> responses (handle exampleWorld \<lparr>rid = 1, URL_Path = ''/main.wasm''\<rparr> initial) =
       [(1, [], ServeContent ''main.wasm'' 0 ''wasm'')]"
  using artifact_is_built [of "\<lparr>rid = 1, URL_Path = ''/main.wasm''\<rparr>" exampleWorld
      "ErrNotExist ''stat main.wasm: no such file or directory''" initial "''/tmp/1''"
      "[MkTempDir ''/tmp/1'']" "initial\<lparr>tmpOutputDir := ''/tmp/1''\<rparr>" "''/bin/wasmserve''"]
  by (simp add: ensure_example buildArgs_def buildEnv_def Join_examples allowOrigin_def)

text \<open>
  The artifact is requested, no file \<open>main.wasm\<close> exists, and \<^verbatim>\<open>os.Executable\<close>
  fails: the answer is 500 with that error, and no build command has been run.
\<close>

theorem no_build_without_executable_path:
  "os_Stat noExecutableWorld ''main.wasm'' =
     Inl (ErrNotExist ''stat main.wasm: no such file or directory'')
   \<and> builds (effects (handle noExecutableWorld \<lparr>rid = 1, URL_Path = ''/main.wasm''\<rparr> initial)) = []
   \<and> responses (handle noExecutableWorld \<lparr>rid = 1, URL_Path = ''/main.wasm''\<rparr> initial) =
       [(1, [], Error ''readlink /proc/self/exe: permission denied'' 500)]"
  by (simp add: handle_def Let_def ensure_example path_Base_segment filepath_Base_def
      redirectCheck_def serveMainWasm_def allowOrigin_def builds_def)

section \<open>The page served\<close>

subsection \<open>Replacing text\<close>

lemma Index_None_iff: "Index s sub = None \<longleftrightarrow> \<not> (\<exists>u v. s = u @ sub @ v)"
proof (induction s)
  case Nil
  then show ?case by auto
next
  case (Cons c cs)
  show ?case
  proof (cases "prefix sub (c # cs)")
    case True
    then obtain v where "c # cs = sub @ v" by (auto simp: prefix_def)
    then have "c # cs = [] @ sub @ v" by simp
    with True show ?thesis by (metis Index.simps(2) option.distinct(1))
  next
    case False
    have "(\<exists>u v. c # cs = u @ sub @ v) \<longleftrightarrow> (\<exists>u v. cs = u @ sub @ v)"
    proof
      assume "\<exists>u v. c # cs = u @ sub @ v"
      then obtain u v where uv: "c # cs = u @ sub @ v" by blast
      show "\<exists>u v. cs = u @ sub @ v"
      proof (cases u)
        case Nil
        with uv have "prefix sub (c # cs)" by (simp add: prefix_def)
        with False show ?thesis by simp
      next
        case (Cons a u')
        with uv have "cs = u' @ sub @ v" by simp
        then show ?thesis by blast
      qed
    next
      assume "\<exists>u v. cs = u @ sub @ v"
      then obtain u v where "cs = u @ sub @ v" by blast
      then have "c # cs = (c # u) @ sub @ v" by simp
      then show "\<exists>u v. c # cs = u @ sub @ v" by blast
    qed
    with False Cons.IH show ?thesis by simp
  qed
qed

lemma Contains_iff: "Contains s sub \<longleftrightarrow> (\<exists>u v. s = u @ sub @ v)"
  by (simp add: Contains_def Index_None_iff)

lemma prefix_across:
  assumes "c \<notin> set old"
  shows "prefix old (xs @ c # ys) \<longleftrightarrow> prefix old xs"
proof
  assume "prefix old (xs @ c # ys)"
  then have "prefix old xs \<or> (\<exists>us. old = xs @ us \<and> prefix us (c # ys))"
    by (simp add: prefix_append)
  then show "prefix old xs"
  proof
    assume "prefix old xs"
    then show ?thesis .
  next
    assume "\<exists>us. old = xs @ us \<and> prefix us (c # ys)"
    then obtain us where us: "old = xs @ us" "prefix us (c # ys)" by blast
    show ?thesis
    proof (cases us)
      case Nil
      with us show ?thesis by simp
    next
      case (Cons a us')
      with us have "a = c" by simp
      with Cons us assms show ?thesis by simp
    qed
  qed
next
  assume "prefix old xs"
  then show "prefix old (xs @ c # ys)" by (rule prefix_prefix)
qed

lemma ReplaceAll_step:
  "old \<noteq> [] \<Longrightarrow> s \<noteq> [] \<Longrightarrow>
     ReplaceAll s old new =
       (if prefix old s then new @ ReplaceAll (drop (length old) s) old new
        else hd s # ReplaceAll (tl s) old new)"
  by (cases s) simp_all

lemma ReplaceAll_across:
  assumes "old \<noteq> []" and "c \<notin> set old"
  shows "ReplaceAll (xs @ c # ys) old new = ReplaceAll xs old new @ c # ReplaceAll ys old new"
proof (induction "length xs" arbitrary: xs rule: less_induct)
  case less
  show ?case
  proof (cases xs)
    case Nil
    from assms have "\<not> prefix old (c # ys)" by (cases old) auto
    with assms Nil show ?thesis by simp
  next
    case (Cons x xs')
    then have ne: "xs \<noteq> []" "xs @ c # ys \<noteq> []" by simp_all
    note across = prefix_across [OF assms(2), of xs ys]
    show ?thesis
    proof (cases "prefix old xs")
      case True
      then have le: "length old \<le> length xs" by (rule prefix_length_le)
      from assms(1) have "0 < length old" by simp
      with ne le have "length (drop (length old) xs) < length xs" by simp
      from less [OF this]
      have ih: "ReplaceAll (drop (length old) xs @ c # ys) old new =
          ReplaceAll (drop (length old) xs) old new @ c # ReplaceAll ys old new" .
      from le have d: "drop (length old) (xs @ c # ys) = drop (length old) xs @ c # ys" by simp
      have "ReplaceAll (xs @ c # ys) old new =
          new @ ReplaceAll (drop (length old) (xs @ c # ys)) old new"
        using True across by (simp add: ReplaceAll_step [OF assms(1) ne(2)])
      also have "\<dots> = new @ ReplaceAll (drop (length old) xs) old new @ c # ReplaceAll ys old new"
        by (simp only: d ih)
      also have "\<dots> = ReplaceAll xs old new @ c # ReplaceAll ys old new"
        using True by (simp add: ReplaceAll_step [OF assms(1) ne(1)])
      finally show ?thesis .
    next
      case False
      from Cons have "length xs' < length xs" by simp
      from less [OF this]
      have ih: "ReplaceAll (xs' @ c # ys) old new =
          ReplaceAll xs' old new @ c # ReplaceAll ys old new" .
      have "ReplaceAll (xs @ c # ys) old new = x # ReplaceAll (xs' @ c # ys) old new"
        using False across Cons assms(1) by simp
      also have "\<dots> = ReplaceAll xs old new @ c # ReplaceAll ys old new"
        using False Cons assms(1) by (simp add: ih)
      finally show ?thesis .
    qed
  qed
qed

lemma ReplaceAll_absent:
  assumes "\<not> Contains s old"
  shows "ReplaceAll s old new = s"
  using assms
proof (induction s)
  case Nil
  then show ?case by simp
next
  case (Cons c cs)
  then have np: "\<not> prefix old (c # cs)" and nc: "\<not> Contains cs old"
    by (auto simp: Contains_def split: if_splits)
  with Cons.IH show ?case by simp
qed

lemma ReplaceAll_present:
  assumes "old \<noteq> []"
  shows "Contains s old \<Longrightarrow> Contains (ReplaceAll s old new) new"
proof (induction "length s" arbitrary: s rule: less_induct)
  case less
  show ?case
  proof (cases s)
    case Nil
    with less.prems assms show ?thesis by (simp add: Contains_def)
  next
    case (Cons c cs)
    show ?thesis
    proof (cases "prefix old s")
      case True
      with Cons assms have "ReplaceAll s old new = [] @ new @ ReplaceAll (drop (length old) s) old new"
        by simp
      then show ?thesis unfolding Contains_iff by blast
    next
      case False
      with less.prems Cons have c: "Contains cs old" by (simp add: Contains_def)
      from Cons have "length cs < length s" by simp
      from less.hyps [OF this c] obtain u v where "ReplaceAll cs old new = u @ new @ v"
        unfolding Contains_iff by blast
      with False Cons assms have "ReplaceAll s old new = (c # u) @ new @ v" by simp
      then show ?thesis unfolding Contains_iff by blast
    qed
  qed
qed

subsection \<open>Escaped text inside a JavaScript string\<close>









lemma shapes:
  obtains "cs = []" | a where "cs = [a]" | a b where "cs = [a, b]"
  | a b c rest where "cs = a # b # c # rest"
proof (cases cs)
  case Nil
  then show ?thesis using that by simp
next
  case (Cons a as)
  note c1 = this
  show ?thesis
  proof (cases as)
    case Nil
    with c1 show ?thesis using that by simp
  next
    case (Cons b bs)
    note c2 = this
    show ?thesis
    proof (cases bs)
      case Nil
      with c1 c2 show ?thesis using that by simp
    next
      case (Cons c rest)
      with c1 c2 show ?thesis using that by simp
    qed
  qed
qed

lemma DecodeRune_width:
  assumes "DecodeRune (c # cs) = (r, n)"
  shows "1 \<le> n \<and> n \<le> Suc (length cs) \<and> (\<forall>b\<in>set (take (n - 1) cs). (0x80::nat) \<le> of_char b)"
  using assms
  by (cases cs rule: shapes)
    (auto simp: DecodeRune_def first_def Let_def split: if_splits)


lemma JSEscapeString_plain:
  "\<forall>c\<in>set p. \<not> jsIsSpecial (of_char c) \<Longrightarrow> JSEscapeString P (p @ v) = p @ JSEscapeString P v"
  by (induction p) simp_all

lemma JSEscapeString_keeps:
  assumes "\<forall>c\<in>set p. \<not> jsIsSpecial (of_char c)" and "p \<noteq> []"
  shows "\<exists>x. JSEscapeString P (u @ p @ v) = x @ p @ JSEscapeString P v"
proof (induction "length u" arbitrary: u rule: less_induct)
  case less
  show ?case
  proof (cases u)
    case Nil
    with JSEscapeString_plain [OF assms(1), of P v] show ?thesis by simp
  next
    case (Cons c cs)
    then have "length cs < length u" by simp
    from less [OF this] obtain x where ih: "JSEscapeString P (cs @ p @ v) = x @ p @ JSEscapeString P v"
      by blast
    show ?thesis
    proof (cases "jsIsSpecial (of_char c)")
      case False
      with Cons ih have "JSEscapeString P (u @ p @ v) = (c # x) @ p @ JSEscapeString P v" by simp
      then show ?thesis by blast
    next
      case True
      note special = this
      show ?thesis
      proof (cases "of_char c < (0x80::nat)")
        case True
        with special Cons ih
        have "JSEscapeString P (u @ p @ v) = (jsAscii c @ x) @ p @ JSEscapeString P v" by simp
        then show ?thesis by blast
      next
        case False
        obtain r n where d: "DecodeRune (c # cs @ p @ v) = (r, n)"
          by (cases "DecodeRune (c # cs @ p @ v)")
        from DecodeRune_width [OF d]
        have hi: "\<forall>b\<in>set (take (n - 1) (cs @ p @ v)). (0x80::nat) \<le> of_char b" by simp
        have le: "n - 1 \<le> length cs"
        proof (rule ccontr)
          assume "\<not> n - 1 \<le> length cs"
          then have "length cs < n - 1" by simp
          then have "(cs @ p @ v) ! length cs \<in> set (take (n - 1) (cs @ p @ v))"
            by (metis in_set_conv_nth length_take min_less_iff_conj nth_take length_append
                assms(2) length_greater_0_conv trans_less_add1 add_less_cancel_left add.right_neutral)
          moreover from assms(2) have "(cs @ p @ v) ! length cs = hd p"
            by (cases p) (simp_all add: nth_append)
          ultimately have "(0x80::nat) \<le> of_char (hd p)" using hi by simp
          moreover from assms have "\<not> jsIsSpecial (of_char (hd p))" by (cases p) simp_all
          ultimately show False by (simp add: jsIsSpecial_def)
        qed
        then have dr: "drop (n - 1) (cs @ p @ v) = drop (n - 1) cs @ p @ v" by simp
        have "length (drop (n - 1) cs) < length u" using Cons by simp
        from less [OF this] obtain y where
          ih': "JSEscapeString P (drop (n - 1) cs @ p @ v) = y @ p @ JSEscapeString P v" by blast
        have "JSEscapeString P (c # (cs @ p @ v)) =
            (if P r then take n (c # cs @ p @ v) else jsUnicode r)
            @ JSEscapeString P (drop (n - 1) (cs @ p @ v))"
          using special False d by (simp del: take_Suc_Cons drop_append take_append)
        also have "\<dots> =
            ((if P r then take n (c # cs @ p @ v) else jsUnicode r) @ y) @ p @ JSEscapeString P v"
          by (simp only: dr ih' append_assoc)
        finally show ?thesis using Cons by auto
      qed
    qed
  qed
qed










subsection \<open>The two substitutions\<close>

lemma indexHTML_parts: "indexHTML = pageHead @ ''{{.Argv}}'' @ pageMid @ ''{{.Env}}'' @ pageTail"
  by (simp add: indexHTML_def pageHead_def pageMid_def pageTail_def)

lemma pageHead_without_Env: "\<not> Contains pageHead ''{{.Env}}''"
  by code_simp

lemma pageTail_without_Env: "\<not> Contains pageTail ''{{.Env}}''"
  by code_simp

lemma pageHead_without_Argv: "\<not> Contains pageHead ''{{.Argv}}''"
  by code_simp

lemma rest_without_Argv: "\<not> Contains (pageMid @ ''{{.Env}}'' @ pageTail) ''{{.Argv}}''"
  by code_simp

lemma ReplaceAll_item:
  assumes "old \<noteq> []" and "CHR 0x22 \<notin> set old"
  shows "ReplaceAll (CHR 0x22 # x @ CHR 0x22 # ys) old new =
           CHR 0x22 # ReplaceAll x old new @ CHR 0x22 # ReplaceAll ys old new"
  using ReplaceAll_across [OF assms, of "[]" "x @ CHR 0x22 # ys" new]
    ReplaceAll_across [OF assms, of x ys new]
  by (simp del: ReplaceAll.simps(2))

lemma ReplaceAll_items:
  assumes "old \<noteq> []" and "CHR 0x22 \<notin> set old" and "CHR '','' \<notin> set old"
    and "CHR '' '' \<notin> set old"
  shows "ReplaceAll (strings_Join (map (\<lambda>a. [CHR 0x22] @ f a @ [CHR 0x22]) as) '', '' @ ys) old new =
           strings_Join (map (\<lambda>a. [CHR 0x22] @ ReplaceAll (f a) old new @ [CHR 0x22]) as) '', ''
           @ ReplaceAll ys old new"
proof (induction as rule: induct_list012)
  case 1
  show ?case by simp
next
  case (2 a)
  show ?case using ReplaceAll_item [OF assms(1,2), of "f a" ys new]
    by (simp del: ReplaceAll.simps(2))
next
  case (3 a b as)
  let ?rest = "strings_Join (map (\<lambda>a. [CHR 0x22] @ f a @ [CHR 0x22]) (b # as)) '', ''"
  have sep: "ReplaceAll (CHR '','' # CHR '' '' # zs) old new = CHR '','' # CHR '' '' # ReplaceAll zs old new"
    for zs
    using ReplaceAll_across [OF assms(1,3), of "[]" "CHR '' '' # zs" new]
      ReplaceAll_across [OF assms(1,4), of "[]" zs new]
    by (simp del: ReplaceAll.simps(2))
  have "strings_Join (map (\<lambda>a. [CHR 0x22] @ f a @ [CHR 0x22]) (a # b # as)) '', '' @ ys
      = CHR 0x22 # f a @ CHR 0x22 # (CHR '','' # CHR '' '' # (?rest @ ys))"
    by simp
  then have "ReplaceAll (strings_Join (map (\<lambda>a. [CHR 0x22] @ f a @ [CHR 0x22]) (a # b # as)) '', '' @ ys) old new
      = CHR 0x22 # ReplaceAll (f a) old new @ CHR 0x22 # ReplaceAll (CHR '','' # CHR '' '' # (?rest @ ys)) old new"
    by (simp only: ReplaceAll_item [OF assms(1,2)])
  also have "\<dots> = CHR 0x22 # ReplaceAll (f a) old new @ CHR 0x22 # CHR '','' # CHR '' '' #
      ReplaceAll (?rest @ ys) old new"
    by (simp only: sep)
  finally have step: "ReplaceAll (strings_Join (map (\<lambda>a. [CHR 0x22] @ f a @ [CHR 0x22]) (a # b # as)) '', '' @ ys) old new
      = CHR 0x22 # ReplaceAll (f a) old new @ CHR 0x22 # CHR '','' # CHR '' '' #
      ReplaceAll (?rest @ ys) old new" .
  show ?case using step 3(2)
    by (simp del: ReplaceAll.simps(2))
qed

lemma first_substitution:
  "ReplaceAll indexHTML ''{{.Argv}}'' lit = pageHead @ lit @ pageMid @ ''{{.Env}}'' @ pageTail"
proof -
  have hp: "pageHead = butlast pageHead @ [CHR '' '']" by code_simp
  have a1: "\<not> Contains (butlast pageHead) ''{{.Argv}}''" by code_simp
  have "ReplaceAll indexHTML ''{{.Argv}}'' lit =
      ReplaceAll (butlast pageHead @ CHR '' '' # (''{{.Argv}}'' @ pageMid @ ''{{.Env}}'' @ pageTail))
        ''{{.Argv}}'' lit"
    by (subst indexHTML_parts, subst hp) simp
  also have "\<dots> = ReplaceAll (butlast pageHead) ''{{.Argv}}'' lit
      @ CHR '' '' # ReplaceAll (''{{.Argv}}'' @ pageMid @ ''{{.Env}}'' @ pageTail) ''{{.Argv}}'' lit"
    by (rule ReplaceAll_across) simp_all
  also have "ReplaceAll (butlast pageHead) ''{{.Argv}}'' lit = butlast pageHead"
    by (rule ReplaceAll_absent [OF a1])
  also have "ReplaceAll (''{{.Argv}}'' @ pageMid @ ''{{.Env}}'' @ pageTail) ''{{.Argv}}'' lit
      = lit @ ReplaceAll (pageMid @ ''{{.Env}}'' @ pageTail) ''{{.Argv}}'' lit"
    by simp
  also have "ReplaceAll (pageMid @ ''{{.Env}}'' @ pageTail) ''{{.Argv}}'' lit
      = pageMid @ ''{{.Env}}'' @ pageTail"
    by (rule ReplaceAll_absent [OF rest_without_Argv])
  finally show ?thesis using hp by (metis append.assoc append_Cons append_Nil)
qed

lemma second_substitution:
  "ReplaceAll (pageHead @ (''['' @ strings_Join (map (\<lambda>a. [CHR 0x22] @ f a @ [CHR 0x22]) as) '', '' @ '']'')
       @ pageMid @ ''{{.Env}}'' @ pageTail) ''{{.Env}}'' new =
     pageHead @ (''['' @ strings_Join (map (\<lambda>a. [CHR 0x22] @ ReplaceAll (f a) ''{{.Env}}'' new @ [CHR 0x22]) as) '', '' @ '']'')
       @ pageMid @ new @ pageTail"
proof -
  let ?J = "strings_Join (map (\<lambda>a. [CHR 0x22] @ f a @ [CHR 0x22]) as) '', ''"
  let ?J' = "strings_Join (map (\<lambda>a. [CHR 0x22] @ ReplaceAll (f a) ''{{.Env}}'' new @ [CHR 0x22]) as) '', ''"
  have mp: "pageMid = butlast pageMid @ [CHR '' '']" by code_simp
  have m1: "\<not> Contains (butlast pageMid) ''{{.Env}}''" by code_simp
  have tail: "ReplaceAll (pageMid @ ''{{.Env}}'' @ pageTail) ''{{.Env}}'' new = pageMid @ new @ pageTail"
  proof -
    have "ReplaceAll (pageMid @ ''{{.Env}}'' @ pageTail) ''{{.Env}}'' new =
        ReplaceAll (butlast pageMid @ CHR '' '' # (''{{.Env}}'' @ pageTail)) ''{{.Env}}'' new"
      by (subst mp) simp
    also have "\<dots> = ReplaceAll (butlast pageMid) ''{{.Env}}'' new
        @ CHR '' '' # ReplaceAll (''{{.Env}}'' @ pageTail) ''{{.Env}}'' new"
      by (rule ReplaceAll_across) simp_all
    also have "ReplaceAll (butlast pageMid) ''{{.Env}}'' new = butlast pageMid"
      by (rule ReplaceAll_absent [OF m1])
    also have "ReplaceAll (''{{.Env}}'' @ pageTail) ''{{.Env}}'' new = new @ ReplaceAll pageTail ''{{.Env}}'' new"
      by simp
    also have "ReplaceAll pageTail ''{{.Env}}'' new = pageTail"
      by (rule ReplaceAll_absent [OF pageTail_without_Env])
    finally show ?thesis using mp by (metis append.assoc append_Cons append_Nil)
  qed
  have "ReplaceAll (pageHead @ (''['' @ ?J @ '']'') @ pageMid @ ''{{.Env}}'' @ pageTail) ''{{.Env}}'' new
      = ReplaceAll (pageHead @ CHR ''['' # (?J @ CHR '']'' # (pageMid @ ''{{.Env}}'' @ pageTail)))
          ''{{.Env}}'' new"
    by simp
  also have "\<dots> = ReplaceAll pageHead ''{{.Env}}'' new
      @ CHR ''['' # ReplaceAll (?J @ CHR '']'' # (pageMid @ ''{{.Env}}'' @ pageTail)) ''{{.Env}}'' new"
    by (rule ReplaceAll_across) simp_all
  also have "ReplaceAll pageHead ''{{.Env}}'' new = pageHead"
    by (rule ReplaceAll_absent [OF pageHead_without_Env])
  also have "ReplaceAll (?J @ CHR '']'' # (pageMid @ ''{{.Env}}'' @ pageTail)) ''{{.Env}}'' new
      = ?J' @ ReplaceAll (CHR '']'' # (pageMid @ ''{{.Env}}'' @ pageTail)) ''{{.Env}}'' new"
    by (rule ReplaceAll_items) simp_all
  also have "ReplaceAll (CHR '']'' # (pageMid @ ''{{.Env}}'' @ pageTail)) ''{{.Env}}'' new
      = CHR '']'' # ReplaceAll (pageMid @ ''{{.Env}}'' @ pageTail) ''{{.Env}}'' new"
    by simp
  finally have "ReplaceAll (pageHead @ (''['' @ ?J @ '']'') @ pageMid @ ''{{.Env}}'' @ pageTail) ''{{.Env}}'' new
      = pageHead @ CHR ''['' # ?J' @ CHR '']'' # ReplaceAll (pageMid @ ''{{.Env}}'' @ pageTail) ''{{.Env}}'' new" .
  then show ?thesis using tail
    by (simp del: ReplaceAll.simps(2))
qed

lemma indexPage_eq:
  assumes "those (map (envItem (unicode_IsPrint w)) (os_Environ w)) = Some env"
  shows "indexPage w output =
     Some (pageHead
       @ (''['' @ strings_Join (map (\<lambda>a. [CHR 0x22]
             @ ReplaceAll (JSEscapeString (unicode_IsPrint w) a) ''{{.Env}}'' (envLiteral env)
             @ [CHR 0x22]) (renderedArgs w output)) '', '' @ '']'')
       @ pageMid @ envLiteral env @ pageTail)"
  using assms
    second_substitution [of "JSEscapeString (unicode_IsPrint w)" "renderedArgs w output" "envLiteral env"]
  by (simp add: indexPage_def argvLiteral_def argvItems_def first_substitution
      del: ReplaceAll.simps(2))










text \<open>
  Claim C9. \<^verbatim>\<open>template.JSEscapeString\<close> leaves the text \<^verbatim>\<open>{{.Env}}\<close> as it is, so an
  argument that holds it still holds it after escaping. \<^verbatim>\<open>{{.Argv}}\<close> is replaced first
  and \<^verbatim>\<open>{{.Env}}\<close> is then replaced in the whole result: the page served has the
  environment object in place of the placeholder inside the string of that argument in
  the \<open>argv\<close> array, as well as at \<open>go.env\<close>.
\<close>

theorem env_is_embedded_in_argv:
  assumes "a \<in> set (renderedArgs w output)" and "Contains a ''{{.Env}}''"
    and "those (map (envItem (unicode_IsPrint w)) (os_Environ w)) = Some env"
  shows "JSEscapeString P ''{{.Env}}'' = ''{{.Env}}''
    \<and> Contains (JSEscapeString (unicode_IsPrint w) a) ''{{.Env}}''
    \<and> Contains (ReplaceAll (JSEscapeString (unicode_IsPrint w) a) ''{{.Env}}'' (envLiteral env))
         (envLiteral env)
    \<and> indexPage w output =
        Some (pageHead
          @ (''['' @ strings_Join (map (\<lambda>a. [CHR 0x22]
                @ ReplaceAll (JSEscapeString (unicode_IsPrint w) a) ''{{.Env}}'' (envLiteral env)
                @ [CHR 0x22]) (renderedArgs w output)) '', '' @ '']'')
          @ pageMid @ envLiteral env @ pageTail)"
proof -
  have plain: "\<forall>c\<in>set ''{{.Env}}''. \<not> jsIsSpecial (of_char c)"
    by (simp add: jsIsSpecial_def)
  have 1: "JSEscapeString P ''{{.Env}}'' = ''{{.Env}}''"
    using JSEscapeString_plain [OF plain, of P "[]"] by simp
  from assms(2) obtain u v where "a = u @ ''{{.Env}}'' @ v"
    unfolding Contains_iff by blast
  with JSEscapeString_keeps [OF plain, of "unicode_IsPrint w" u v]
  have 2: "Contains (JSEscapeString (unicode_IsPrint w) a) ''{{.Env}}''"
    unfolding Contains_iff by auto
  have 3: "Contains (ReplaceAll (JSEscapeString (unicode_IsPrint w) a) ''{{.Env}}'' (envLiteral env))
         (envLiteral env)"
    by (rule ReplaceAll_present [OF _ 2]) simp
  show ?thesis using 1 2 3 indexPage_eq [OF assms(3), of "output"] by blast
qed

theorem env_is_embedded_in_argv_witness:
  "''{{.Env}}'' \<in> set (renderedArgs placeholderWorld ''/tmp/1'')
   \<and> Contains ''{{.Env}}'' ''{{.Env}}''
   \<and> those (map (envItem (unicode_IsPrint placeholderWorld)) (os_Environ placeholderWorld)) =
       Some [''HOME: '' @ [CHR 0x22] @ ''/root'' @ [CHR 0x22], ''LANG: '' @ [CHR 0x22] @ ''C'' @ [CHR 0x22]]
   \<and> indexPage placeholderWorld ''/tmp/1'' =
       Some (pageHead @ (''['' @ [CHR 0x22] @ exampleEnvLiteral @ [CHR 0x22] @ '']'')
             @ pageMid @ exampleEnvLiteral @ pageTail)"
proof -
  let ?env = "[''HOME: '' @ [CHR 0x22] @ ''/root'' @ [CHR 0x22], ''LANG: '' @ [CHR 0x22] @ ''C'' @ [CHR 0x22]]"
  have a: "''{{.Env}}'' \<in> set (renderedArgs placeholderWorld ''/tmp/1'')" by code_simp
  have c: "Contains ''{{.Env}}'' ''{{.Env}}''" by code_simp
  have e: "those (map (envItem (unicode_IsPrint placeholderWorld)) (os_Environ placeholderWorld)) =
      Some ?env"
    by code_simp
  have m: "''['' @ strings_Join (map (\<lambda>a. [CHR 0x22]
                @ ReplaceAll (JSEscapeString (unicode_IsPrint placeholderWorld) a) ''{{.Env}}'' exampleEnvLiteral
                @ [CHR 0x22]) (renderedArgs placeholderWorld ''/tmp/1'')) '', '' @ '']''
      = ''['' @ [CHR 0x22] @ exampleEnvLiteral @ [CHR 0x22] @ '']''"
    by code_simp
  have v: "envLiteral ?env = exampleEnvLiteral"
    by code_simp
  note p = env_is_embedded_in_argv [OF a c e, of "unicode_IsPrint placeholderWorld",
      THEN conjunct2, THEN conjunct2, THEN conjunct2]
  have page: "indexPage placeholderWorld ''/tmp/1'' =
       Some (pageHead @ (''['' @ [CHR 0x22] @ exampleEnvLiteral @ [CHR 0x22] @ '']'')
             @ pageMid @ exampleEnvLiteral @ pageTail)"
    using p by (simp only: v) (simp only: m)
  show ?thesis using a c e page by blast
qed

end
